theory Spec2Isabelle
  imports Complex_Main "HOL-Library.Multiset" "HOL-Library.Monad_Syntax"
begin

section \<open>Machine integers\<close>

text \<open>
  A \<^verbatim>\<open>size_t\<close> is a \<open>nat\<close> below \<open>2^64\<close> and an \<^verbatim>\<open>int\<close> is an \<open>int\<close> of 32 bits in
  two's complement; the arithmetic of the program on them, and its casts between
  \<^verbatim>\<open>size_t\<close>, \<^verbatim>\<open>int64_t\<close> and \<^verbatim>\<open>int\<close>, are written out with their wrap-around.
  Sizes of containers and indices into them are \<open>nat\<close> as they are.
\<close>

definition fits_size_t :: "nat \<Rightarrow> bool" where
  "fits_size_t n \<longleftrightarrow> n < 2 ^ 64"

definition fits_int :: "int \<Rightarrow> bool" where
  "fits_int i \<longleftrightarrow> - (2 ^ 31) \<le> i \<and> i < 2 ^ 31"

definition to_int64 :: "nat \<Rightarrow> int" where
  "to_int64 n = (let m = int n mod 2 ^ 64 in if m < 2 ^ 63 then m else m - 2 ^ 64)"

definition to_size_t :: "int \<Rightarrow> nat" where
  "to_size_t i = nat (i mod 2 ^ 64)"

definition to_int :: "int \<Rightarrow> int" where
  "to_int i = (let m = i mod 2 ^ 32 in if m < 2 ^ 31 then m else m - 2 ^ 32)"

text \<open>\<^verbatim>\<open>n++\<close> on a \<^verbatim>\<open>size_t\<close>: the value after the increment.\<close>

definition size_t_incr :: "nat \<Rightarrow> nat" where
  "size_t_incr n = to_size_t (int n + 1)"

text \<open>
  \<^verbatim>\<open>a + b\<close> on two \<^verbatim>\<open>int\<close>. Where the sum does not fit, C++ leaves the result
  undefined; here it wraps, as the two's complement addition of the machine does.
\<close>

definition int_plus :: "int \<Rightarrow> int \<Rightarrow> int" where
  "int_plus a b = to_int (a + b)"

section \<open>Geometry kernel (geom.h)\<close>

text \<open>
  \<^verbatim>\<open>Coord\<close>, \<^verbatim>\<open>Dimension\<close> and every other \<^verbatim>\<open>double\<close> of the program is modelled
  as a real number: arithmetic is exact, there is no NaN, no infinity and no rounding.
  Comparisons, \<^verbatim>\<open>std::min\<close>, \<^verbatim>\<open>std::max\<close> and \<^verbatim>\<open>std::clamp\<close> are the same on
  both sides.
\<close>

record Position =
  pos_x :: real
  pos_y :: real

record Speed =
  vx :: real
  vy :: real

record MoveResult =
  mr_position :: Position
  hit_boundary :: bool

record Loot =
  loot_id :: nat
  loot_type :: nat
  loot_position :: Position
  loot_value :: int

datatype Direction = NORTH | SOUTH | WEST | EAST

text \<open>\<^verbatim>\<open>std::round\<close> rounds halfway cases away from zero.\<close>

definition std_round :: "real \<Rightarrow> int" where
  "std_round v = (if 0 \<le> v then \<lfloor>v + 1 / 2\<rfloor> else \<lceil>v - 1 / 2\<rceil>)"

definition Round6 :: "real \<Rightarrow> real" where
  "Round6 v = of_int (std_round (v * 1000000)) / 1000000"

text \<open>\<^verbatim>\<open>std::clamp(v, lo, hi)\<close>.\<close>

definition std_clamp :: "real \<Rightarrow> real \<Rightarrow> real \<Rightarrow> real" where
  "std_clamp v lo hi = (if v < lo then lo else if hi < v then hi else v)"

section \<open>Collision detector (collision\_detector.cpp)\<close>

text \<open>
  Modelled from the spec: the header \<^verbatim>\<open>collision_detector.h\<close> with the declarations of
  \<^verbatim>\<open>Item\<close>, \<^verbatim>\<open>Gatherer\<close>, \<^verbatim>\<open>GatheringEvent\<close>, \<^verbatim>\<open>CollectionResult\<close> and
  \<^verbatim>\<open>ItemGathererProvider\<close> is not among the sources. The records carry the fields that
  \<^verbatim>\<open>FindGatherEvents\<close>, the providers of \<^verbatim>\<open>HandleCollisions\<close> and the tests use, in the
  order of their brace initialisers. A provider is the list of its items and the list of
  its gatherers (\<^verbatim>\<open>ItemsCount\<close>/\<^verbatim>\<open>GetItem\<close> and \<^verbatim>\<open>GatherersCount\<close>/\<^verbatim>\<open>GetGatherer\<close>).
\<close>

record Item =
  item_position :: Position
  item_width :: real

record Gatherer =
  start_pos :: Position
  end_pos :: Position
  gatherer_width :: real

record CollectionResult =
  cr_sq_distance :: real
  proj_ratio :: real

record GatheringEvent =
  ge_item_id :: nat
  ge_gatherer_id :: nat
  ge_sq_distance :: real
  ge_time :: real

text \<open>
  \<^verbatim>\<open>TryCollectPoint\<close> asserts that the displacement is not zero; a failed assertion
  is the value \<open>None\<close>.
\<close>

definition TryCollectPoint :: "Position \<Rightarrow> Position \<Rightarrow> Position \<Rightarrow> CollectionResult option" where
  "TryCollectPoint a b c =
     (if \<not> (pos_x b \<noteq> pos_x a \<or> pos_y b \<noteq> pos_y a) then None
      else
        let u_x = pos_x c - pos_x a;
            u_y = pos_y c - pos_y a;
            v_x = pos_x b - pos_x a;
            v_y = pos_y b - pos_y a;
            u_dot_v = u_x * v_x + u_y * v_y;
            u_len2 = u_x * u_x + u_y * u_y;
            v_len2 = v_x * v_x + v_y * v_y
        in Some \<lparr>cr_sq_distance = u_len2 - (u_dot_v * u_dot_v) / v_len2,
                 proj_ratio = u_dot_v / v_len2\<rparr>)"

text \<open>The body of the inner loop: the events of one gatherer and one item.\<close>

definition item_events :: "Item list \<Rightarrow> nat \<Rightarrow> Gatherer \<Rightarrow> nat \<Rightarrow> GatheringEvent list" where
  "item_events items gatherer_idx gatherer item_idx =
     (case TryCollectPoint (start_pos gatherer) (end_pos gatherer)
             (item_position (items ! item_idx)) of
        None \<Rightarrow> []
      | Some result \<Rightarrow>
          if proj_ratio result \<ge> 0 \<and> proj_ratio result \<le> 1 \<and>
             cr_sq_distance result \<le> gatherer_width gatherer * gatherer_width gatherer
          then [\<lparr>ge_item_id = item_idx, ge_gatherer_id = gatherer_idx,
                 ge_sq_distance = cr_sq_distance result, ge_time = proj_ratio result\<rparr>]
          else [])"

text \<open>The body of the outer loop: gatherers that did not move are skipped.\<close>

definition gatherer_events :: "Item list \<Rightarrow> Gatherer list \<Rightarrow> nat \<Rightarrow> GatheringEvent list" where
  "gatherer_events items gatherers gatherer_idx =
     (let gatherer = gatherers ! gatherer_idx
      in if pos_x (start_pos gatherer) = pos_x (end_pos gatherer) \<and>
            pos_y (start_pos gatherer) = pos_y (end_pos gatherer)
         then []
         else concat (map (item_events items gatherer_idx gatherer) [0..<length items]))"

definition found_events :: "Item list \<Rightarrow> Gatherer list \<Rightarrow> GatheringEvent list" where
  "found_events items gatherers =
     concat (map (gatherer_events items gatherers) [0..<length gatherers])"

text \<open>
  \<^verbatim>\<open>std::sort\<close> by \<^verbatim>\<open>time\<close> is modelled here by the stable insertion sort
  \<open>sort_key\<close>, one of the orders \<^verbatim>\<open>std::sort\<close> may produce; the session sorts the
  events of both detector runs again (\<open>std_sort\<close> below), and there every order that
  \<^verbatim>\<open>std::sort\<close> may produce is covered.
\<close>

definition FindGatherEvents :: "Item list \<Rightarrow> Gatherer list \<Rightarrow> GatheringEvent list" where
  "FindGatherEvents items gatherers = sort_key ge_time (found_events items gatherers)"

section \<open>Roads and maps (model.h, model.cpp)\<close>

text \<open>
  A road is built by one of two constructors, \<^verbatim>\<open>Road(HORIZONTAL, start, end_x)\<close> and
  \<^verbatim>\<open>Road(VERTICAL, start, end_y)\<close>, so its end point shares one coordinate with its start
  point. \<^verbatim>\<open>width_\<close> (here \<open>road_width\<close>) is the constant 0.4.
\<close>

record Road =
  road_start :: Position
  road_end :: Position

definition Road_HORIZONTAL :: "Position \<Rightarrow> real \<Rightarrow> Road" where
  "Road_HORIZONTAL start end_x = \<lparr>road_start = start, road_end = \<lparr>pos_x = end_x, pos_y = pos_y start\<rparr>\<rparr>"

definition Road_VERTICAL :: "Position \<Rightarrow> real \<Rightarrow> Road" where
  "Road_VERTICAL start end_y = \<lparr>road_start = start, road_end = \<lparr>pos_x = pos_x start, pos_y = end_y\<rparr>\<rparr>"

definition road_width :: real where
  "road_width = 0.4"

definition GetWidth :: "Road \<Rightarrow> real" where
  "GetWidth road = road_width"

definition IsHorizontal :: "Road \<Rightarrow> bool" where
  "IsHorizontal road \<longleftrightarrow> pos_y (road_start road) = pos_y (road_end road)"

definition IsVertical :: "Road \<Rightarrow> bool" where
  "IsVertical road \<longleftrightarrow> pos_x (road_start road) = pos_x (road_end road)"

definition GetMinX :: "Road \<Rightarrow> real" where
  "GetMinX road = min (pos_x (road_start road)) (pos_x (road_end road))"

definition GetMaxX :: "Road \<Rightarrow> real" where
  "GetMaxX road = max (pos_x (road_start road)) (pos_x (road_end road))"

definition GetMinY :: "Road \<Rightarrow> real" where
  "GetMinY road = min (pos_y (road_start road)) (pos_y (road_end road))"

definition GetMaxY :: "Road \<Rightarrow> real" where
  "GetMaxY road = max (pos_y (road_start road)) (pos_y (road_end road))"

definition GetBorders :: "Road \<Rightarrow> Position \<times> Position" where
  "GetBorders road =
     (\<lparr>pos_x = GetMinX road - road_width, pos_y = GetMinY road - road_width\<rparr>,
      \<lparr>pos_x = GetMaxX road + road_width, pos_y = GetMaxY road + road_width\<rparr>)"

definition IsPositionInRoad :: "Road \<Rightarrow> Position \<Rightarrow> bool" where
  "IsPositionInRoad road pos =
     (let borders = GetBorders road;
          more_than_min = (pos_x pos \<ge> pos_x (fst borders) \<and> pos_y pos \<ge> pos_y (fst borders));
          less_than_max = (pos_x pos \<le> pos_x (snd borders) \<and> pos_y pos \<le> pos_y (snd borders))
      in more_than_min \<and> less_than_max)"

record Office =
  office_id :: string
  office_position :: Position
  office_offset :: Position

text \<open>
  Of \<^verbatim>\<open>Map\<close> the model keeps what the session tick and the snapshot code read. The JSON
  array \<^verbatim>\<open>loot_types_\<close> is kept as the list of the \<^verbatim>\<open>value\<close> members of its objects,
  each an \<^verbatim>\<open>int64_t\<close> (\<open>None\<close> for an object without one). An array with an element
  that is not an object, or with a \<^verbatim>\<open>value\<close> that is not an \<^verbatim>\<open>int64_t\<close>, has no
  counterpart here: on it \<^verbatim>\<open>as_object\<close> or \<^verbatim>\<open>as_int64\<close> throws when a loot of that
  type is spawned.
\<close>

record Map =
  map_id :: string
  map_roads :: "Road list"
  map_offices :: "Office list"
  map_loot_types :: "int option list"
  map_bag_capacity :: nat

text \<open>
  The running minimum and maximum of \<^verbatim>\<open>GetExactMovementBounds\<close> start at
  \<^verbatim>\<open>numeric_limits<double>::max()\<close> and \<^verbatim>\<open>lowest()\<close>, which the first road replaces;
  the folds below start at the first road instead.
\<close>

fun running_min :: "real list \<Rightarrow> real" where
  "running_min [] = 0"
| "running_min (v # vs) = fold (\<lambda>w m. min m w) vs v"

fun running_max :: "real list \<Rightarrow> real" where
  "running_max [] = 0"
| "running_max (v # vs) = fold (\<lambda>w m. max m w) vs v"

definition GetExactMovementBounds :: "Road list \<Rightarrow> Position \<times> Position" where
  "GetExactMovementBounds roads =
     (if roads = [] then (\<lparr>pos_x = 0, pos_y = 0\<rparr>, \<lparr>pos_x = 0, pos_y = 0\<rparr>)
      else
        let min_x = running_min (map (\<lambda>road. GetMinX road - GetWidth road) roads);
            max_x = running_max (map (\<lambda>road. GetMaxX road + GetWidth road) roads);
            min_y = running_min (map (\<lambda>road. GetMinY road - GetWidth road) roads);
            max_y = running_max (map (\<lambda>road. GetMaxY road + GetWidth road) roads)
        in (\<lparr>pos_x = min_x, pos_y = min_y\<rparr>, \<lparr>pos_x = max_x, pos_y = max_y\<rparr>))"

subsection \<open>Map::MoveDog\<close>

definition move_target :: "Position \<Rightarrow> Speed \<Rightarrow> real \<Rightarrow> Position" where
  "move_target start speed delta_time =
     \<lparr>pos_x = pos_x start + vx speed * delta_time, pos_y = pos_y start + vy speed * delta_time\<rparr>"

text \<open>The clamp of the target to the bounds of the map, with the flag it sets.\<close>

definition clamp_to_bounds :: "Road list \<Rightarrow> Position \<Rightarrow> Position \<times> bool" where
  "clamp_to_bounds roads target =
     (let (min_bound, max_bound) = GetExactMovementBounds roads;
          (final_x, hit_x) =
             (if pos_x target < pos_x min_bound then (pos_x min_bound, True)
              else if pos_x target > pos_x max_bound then (pos_x max_bound, True)
              else (pos_x target, False));
          (final_y, hit_y) =
             (if pos_y target < pos_y min_bound then (pos_y min_bound, True)
              else if pos_y target > pos_y max_bound then (pos_y max_bound, True)
              else (pos_y target, False))
      in (\<lparr>pos_x = final_x, pos_y = final_y\<rparr>, hit_x \<or> hit_y))"

text \<open>
  The first loop over the roads: it returns from \<^verbatim>\<open>MoveDog\<close> (\<open>None\<close>) at the first road
  that contains the final position, and collects in \<^verbatim>\<open>cur_roads\<close> the roads that contain
  the start.
\<close>

fun find_cur_roads :: "Road list \<Rightarrow> Position \<Rightarrow> Position \<Rightarrow> Road list \<Rightarrow> Road list option" where
  "find_cur_roads [] final_position start cur_roads = Some cur_roads"
| "find_cur_roads (road # rest) final_position start cur_roads =
     (if IsPositionInRoad road final_position then None
      else if IsPositionInRoad road start
           then find_cur_roads rest final_position start (cur_roads @ [road])
           else find_cur_roads rest final_position start cur_roads)"

text \<open>
  The point \<^verbatim>\<open>projected\<close> that the second loop computes for one road, in the four
  branches of its \<^verbatim>\<open>if\<close>/\<^verbatim>\<open>else if\<close> chain; \<open>None\<close> when no branch is taken.
\<close>

definition projected :: "Road \<Rightarrow> Speed \<Rightarrow> Position \<Rightarrow> Position option" where
  "projected road speed final_position =
     (if IsHorizontal road \<and> vy speed \<noteq> 0 then
        let road_y = (if vy speed > 0 then pos_y (road_start road) + GetWidth road
                      else pos_y (road_start road) - GetWidth road);
            road_min_x = GetMinX road - GetWidth road;
            road_max_x = GetMaxX road + GetWidth road
        in Some \<lparr>pos_x = std_clamp (pos_x final_position) road_min_x road_max_x, pos_y = road_y\<rparr>
      else if IsHorizontal road \<and> vx speed \<noteq> 0 then
        let road_y = pos_y (road_start road) + GetWidth road;
            road_min_x = GetMinX road - GetWidth road;
            road_max_x = GetMaxX road + GetWidth road
        in Some \<lparr>pos_x = std_clamp (pos_x final_position) road_min_x road_max_x, pos_y = road_y\<rparr>
      else if IsVertical road \<and> vx speed \<noteq> 0 then
        let road_x = (if vx speed > 0 then pos_x (road_start road) + GetWidth road
                      else pos_x (road_start road) - GetWidth road);
            road_min_y = GetMinY road - GetWidth road;
            road_max_y = GetMaxY road + GetWidth road
        in Some \<lparr>pos_x = road_x, pos_y = std_clamp (pos_y final_position) road_min_y road_max_y\<rparr>
      else if IsVertical road \<and> vy speed \<noteq> 0 then
        let road_min_y = GetMinY road - GetWidth road;
            road_max_y = GetMaxY road + GetWidth road
        in Some \<lparr>pos_x = pos_x final_position,
                 pos_y = std_clamp (pos_y final_position) road_min_y road_max_y\<rparr>
      else None)"

definition distance_sq :: "Position \<Rightarrow> Position \<Rightarrow> real" where
  "distance_sq final_position p =
     (pos_x final_position - pos_x p) * (pos_x final_position - pos_x p) +
     (pos_y final_position - pos_y p) * (pos_y final_position - pos_y p)"

text \<open>
  The second loop. Its state is \<^verbatim>\<open>best_position\<close> and \<^verbatim>\<open>min_distance_sq\<close>; the initial
  \<^verbatim>\<open>numeric_limits<double>::max()\<close> of the latter, above every squared distance, is
  \<open>None\<close>.
\<close>

definition slide_step :: "Speed \<Rightarrow> Position \<Rightarrow> Road \<Rightarrow> Position \<times> real option \<Rightarrow> Position \<times> real option" where
  "slide_step speed final_position road st =
     (case projected road speed final_position of
        None \<Rightarrow> st
      | Some p \<Rightarrow>
          if IsPositionInRoad road p then
            (if (case snd st of None \<Rightarrow> True | Some min_distance_sq \<Rightarrow>
                   distance_sq final_position p < min_distance_sq)
             then (p, Some (distance_sq final_position p))
             else st)
          else st)"

definition slide :: "Road list \<Rightarrow> Speed \<Rightarrow> Position \<Rightarrow> Position \<Rightarrow> Position" where
  "slide cur_roads speed final_position start =
     fst (fold (slide_step speed final_position) cur_roads (start, None))"

definition MoveDog :: "Road list \<Rightarrow> Position \<Rightarrow> Speed \<Rightarrow> real \<Rightarrow> MoveResult" where
  "MoveDog roads start speed delta_time =
     (if roads = [] then \<lparr>mr_position = start, hit_boundary = False\<rparr>
      else
        let target = move_target start speed delta_time;
            (final_position, hit) = clamp_to_bounds roads target
        in case find_cur_roads roads final_position start [] of
             None \<Rightarrow> \<lparr>mr_position = final_position, hit_boundary = hit\<rparr>
           | Some cur_roads \<Rightarrow>
               let best_position = slide cur_roads speed final_position start;
                   hit_road_boundary = (pos_x best_position \<noteq> pos_x final_position \<or>
                                        pos_y best_position \<noteq> pos_y final_position)
               in \<lparr>mr_position = best_position, hit_boundary = (hit \<or> hit_road_boundary)\<rparr>)"

text \<open>
  The points among which the second loop of \<^verbatim>\<open>MoveDog\<close> chooses: for every road whose
  strip contains the start, the point \<^verbatim>\<open>projected\<close> if it lies in the strip of that road.
\<close>

definition road_candidate :: "Speed \<Rightarrow> Position \<Rightarrow> Road \<Rightarrow> Position list" where
  "road_candidate speed final_position road =
     (case projected road speed final_position of
        None \<Rightarrow> []
      | Some p \<Rightarrow> if IsPositionInRoad road p then [p] else [])"

definition slide_candidates :: "Road list \<Rightarrow> Position \<Rightarrow> Speed \<Rightarrow> Position \<Rightarrow> Position list" where
  "slide_candidates roads start speed final_position =
     concat (map (road_candidate speed final_position)
               (filter (\<lambda>road. IsPositionInRoad road start) roads))"

text \<open>
  The walkable strip of a road in the words of the specification: the road inflated by
  0.4 on all sides, closed. \<open>IsPositionInRoad\<close> decides it (lemma
  \<open>IsPositionInRoad_walkable_strip\<close>).
\<close>

definition walkable_strip :: "Road \<Rightarrow> Position set" where
  "walkable_strip road =
     {p. min (pos_x (road_start road)) (pos_x (road_end road)) - 0.4 \<le> pos_x p \<and>
         pos_x p \<le> max (pos_x (road_start road)) (pos_x (road_end road)) + 0.4 \<and>
         min (pos_y (road_start road)) (pos_y (road_end road)) - 0.4 \<le> pos_y p \<and>
         pos_y p \<le> max (pos_y (road_start road)) (pos_y (road_end road)) + 0.4}"

definition walkable_strips :: "Road list \<Rightarrow> Position set" where
  "walkable_strips roads = (\<Union>road \<in> set roads. walkable_strip road)"

text \<open>The union of the walkable strips of a list of roads.\<close>

definition on_roads :: "Road list \<Rightarrow> Position \<Rightarrow> bool" where
  "on_roads roads pos \<longleftrightarrow> (\<exists>road \<in> set roads. IsPositionInRoad road pos)"

section \<open>Loot generator\<close>

text \<open>
  Modelled from the spec: \<^verbatim>\<open>loot_generator.h\<close> and \<^verbatim>\<open>loot_generator.cpp\<close> are not among
  the sources (only the tests of the generator and its calls are). The record and
  \<open>Generate\<close> follow the six steps of the section of the specification on the loot
  generator. The injected random source is the argument \<open>r\<close>, the value it returns in this
  call. Times are in seconds.
\<close>

record LootGenerator =
  base_interval :: real
  base_probability :: real
  time_without_loot :: real

text \<open>
  \<open>(1 - base_probability)\<close> to the power \<open>ratio\<close>. HOL's \<open>powr\<close> is 0 at base 0, whatever
  the exponent; the power of the program is 1 at exponent 0.
\<close>

definition pow_ratio :: "real \<Rightarrow> real \<Rightarrow> real" where
  "pow_ratio b e = (if e = 0 then 1 else b powr e)"

definition Generate :: "LootGenerator \<Rightarrow> real \<Rightarrow> nat \<Rightarrow> nat \<Rightarrow> real \<Rightarrow> nat \<times> LootGenerator" where
  "Generate g time_delta loot_count looter_count r =
     (let T = time_without_loot g + time_delta;
          shortage = max 0 (int looter_count - int loot_count)
      in if shortage = 0 then (0, g\<lparr>time_without_loot := 0\<rparr>)
         else
           let ratio = min 1 (T / base_interval g);
               p = 1 - pow_ratio (1 - base_probability g) ratio;
               n = \<lfloor>of_int shortage * p * r + 0.5\<rfloor>
           in (nat (if n > shortage then shortage else n),
               g\<lparr>time_without_loot := (if n > 0 then 0 else T)\<rparr>))"

section \<open>Dogs, players and sessions (model.h)\<close>

record Dog =
  dog_id :: string
  dog_name :: string
  dog_map_id :: string
  dog_position :: Position
  dog_speed :: Speed
  dog_direction :: Direction
  previous_position :: Position

definition Dog_new :: "string \<Rightarrow> string \<Rightarrow> string \<Rightarrow> Dog" where
  "Dog_new did name mid =
     \<lparr>dog_id = did, dog_name = name, dog_map_id = mid,
      dog_position = \<lparr>pos_x = 0, pos_y = 0\<rparr>, dog_speed = \<lparr>vx = 0, vy = 0\<rparr>,
      dog_direction = NORTH, previous_position = \<lparr>pos_x = 0, pos_y = 0\<rparr>\<rparr>"

definition Stop :: "Dog \<Rightarrow> Dog" where
  "Stop d = d\<lparr>dog_speed := \<lparr>vx = 0, vy = 0\<rparr>\<rparr>"

definition IsMoving :: "Dog \<Rightarrow> bool" where
  "IsMoving d \<longleftrightarrow> vx (dog_speed d) \<noteq> 0 \<and> vy (dog_speed d) \<noteq> 0"

text \<open>
  \<^verbatim>\<open>score_\<close> is an \<^verbatim>\<open>int\<close>; the model does not bound it (signed overflow is undefined
  in the program).
\<close>

record Player =
  player_id :: nat
  player_dog :: Dog
  player_token :: string
  bag :: "Loot list"
  bag_capacity :: nat
  score :: int
  play_time :: real
  idle_time :: real

definition Player_new :: "nat \<Rightarrow> Dog \<Rightarrow> string \<Rightarrow> nat \<Rightarrow> Player" where
  "Player_new pid d tok capacity =
     \<lparr>player_id = pid, player_dog = d, player_token = tok, bag = [], bag_capacity = capacity,
      score = 0, play_time = 0, idle_time = 0\<rparr>"

definition AddToBag :: "Loot \<Rightarrow> Player \<Rightarrow> Player" where
  "AddToBag loot p = (if length (bag p) < bag_capacity p then p\<lparr>bag := bag p @ [loot]\<rparr> else p)"

definition ClearBag :: "Player \<Rightarrow> Player" where
  "ClearBag p = p\<lparr>bag := []\<rparr>"

definition IsBagFull :: "Player \<Rightarrow> bool" where
  "IsBagFull p \<longleftrightarrow> length (bag p) \<ge> bag_capacity p"

definition AddScore :: "int \<Rightarrow> Player \<Rightarrow> Player" where
  "AddScore delta p = p\<lparr>score := int_plus (score p) delta\<rparr>"

definition AddPlayTime :: "real \<Rightarrow> Player \<Rightarrow> Player" where
  "AddPlayTime dt p = p\<lparr>play_time := play_time p + dt\<rparr>"

definition AddIdleTime :: "real \<Rightarrow> Player \<Rightarrow> Player" where
  "AddIdleTime dt p = p\<lparr>idle_time := idle_time p + dt\<rparr>"

definition ResetIdleTime :: "Player \<Rightarrow> Player" where
  "ResetIdleTime p = p\<lparr>idle_time := 0\<rparr>"

text \<open>
  A session holds a pointer to its map, which is never modified; the model holds the map.
  The back pointer \<^verbatim>\<open>game_\<close> is read in \<^verbatim>\<open>RetireInactivePlayers\<close> only; what is read
  through it is passed to the tick as a \<open>GameLink\<close> (\<open>None\<close> for a null pointer).
\<close>

record GameSession =
  session_id :: string
  session_map :: Map
  session_players :: "Player list"
  session_loots :: "Loot list"
  next_loot_id :: nat
  loot_generator :: "LootGenerator option"

definition GameSession_new :: "string \<Rightarrow> Map \<Rightarrow> GameSession" where
  "GameSession_new sid m =
     \<lparr>session_id = sid, session_map = m, session_players = [], session_loots = [],
      next_loot_id = 0, loot_generator = None\<rparr>"

definition AddPlayer :: "Player \<Rightarrow> GameSession \<Rightarrow> GameSession" where
  "AddPlayer p s = s\<lparr>session_players := session_players s @ [p]\<rparr>"

definition AddLoot :: "Loot \<Rightarrow> GameSession \<Rightarrow> GameSession" where
  "AddLoot l s = s\<lparr>session_loots := session_loots s @ [l]\<rparr>"

definition SetNextLootId :: "nat \<Rightarrow> GameSession \<Rightarrow> GameSession" where
  "SetNextLootId n s = s\<lparr>next_loot_id := n\<rparr>"

definition SetLootGenerator :: "LootGenerator \<Rightarrow> GameSession \<Rightarrow> GameSession" where
  "SetLootGenerator g s = s\<lparr>loot_generator := Some g\<rparr>"

record GameLink =
  link_dog_retirement_time :: real
  link_callback_installed :: bool

text \<open>The events of \<^verbatim>\<open>HandleCollisions\<close>.\<close>

datatype EventType = LOOT | OFFICE

record GameEvent =
  ev_time :: real
  ev_type :: EventType
  ev_gatherer_id :: nat
  ev_item_id :: nat

text \<open>
  What a tick takes from outside the session: the call of \<^verbatim>\<open>LootGenerator::Generate\<close>
  (whose code is not among the sources, so every theorem about the tick holds for every
  function in its place), for the \<open>i\<close>-th new loot of the tick the value drawn from
  \<^verbatim>\<open>dist(random_engine)\<close> and the position returned by \<^verbatim>\<open>GetRandomPosition\<close>, and
  the way \<^verbatim>\<open>std::sort\<close> arranges the events of the tick that have the same time
  (see \<open>std_sort\<close>).
\<close>

record TickEnv =
  env_generate :: "LootGenerator \<Rightarrow> real \<Rightarrow> nat \<Rightarrow> nat \<Rightarrow> nat \<times> LootGenerator"
  env_type :: "nat \<Rightarrow> nat"
  env_position :: "nat \<Rightarrow> Position"
  env_sort :: "GameEvent list \<Rightarrow> GameEvent list"

section \<open>GameSession::UpdateState (model.cpp)\<close>

subsection \<open>Play time and idle time\<close>

definition EPS :: real where
  "EPS = 1 / 10 ^ 10"

definition update_times :: "real \<Rightarrow> Player \<Rightarrow> Player" where
  "update_times delta_time p =
     (let p1 = AddPlayTime delta_time p;
          speed = dog_speed (player_dog p1);
          is_idle = (\<bar>vx speed\<bar> < EPS \<and> \<bar>vy speed\<bar> < EPS)
      in if is_idle then AddIdleTime delta_time p1 else ResetIdleTime p1)"

subsection \<open>New loot\<close>

text \<open>
  The value of a new loot: the \<^verbatim>\<open>int64_t\<close> of the loot type, cast to \<^verbatim>\<open>int\<close>; 0 when
  the loot type has no value or the map has no such loot type.
\<close>

definition loot_value_of :: "Map \<Rightarrow> nat \<Rightarrow> int" where
  "loot_value_of m type =
     (if type < length (map_loot_types m)
      then (case map_loot_types m ! type of Some v \<Rightarrow> to_int v | None \<Rightarrow> 0)
      else 0)"

text \<open>
  The body of the loop over the new loots. The new loot gets the value of the counter as
  its id, and the counter is incremented as a \<^verbatim>\<open>size_t\<close>: after \<open>2^64 - 1\<close> comes 0.
\<close>

definition spawn_loot :: "TickEnv \<Rightarrow> nat \<Rightarrow> GameSession \<Rightarrow> GameSession" where
  "spawn_loot env i s =
     (let type = env_type env i;
          pos = env_position env i;
          v = loot_value_of (session_map s) type;
          loot = \<lparr>loot_id = next_loot_id s, loot_type = type, loot_position = pos, loot_value = v\<rparr>
      in s\<lparr>next_loot_id := size_t_incr (next_loot_id s), session_loots := session_loots s @ [loot]\<rparr>)"

definition generate_loots :: "TickEnv \<Rightarrow> real \<Rightarrow> GameSession \<Rightarrow> GameSession" where
  "generate_loots env delta_time s =
     (case loot_generator s of
        None \<Rightarrow> s
      | Some g \<Rightarrow>
          let (new_loot_count, g') =
                env_generate env g delta_time (length (session_loots s)) (length (session_players s))
          in fold (spawn_loot env) [0..<new_loot_count] (s\<lparr>loot_generator := Some g'\<rparr>))"

subsection \<open>Movement\<close>

definition save_previous_position :: "Player \<Rightarrow> Player" where
  "save_previous_position p =
     p\<lparr>player_dog := (player_dog p)\<lparr>previous_position := dog_position (player_dog p)\<rparr>\<rparr>"

definition move_player :: "Map \<Rightarrow> real \<Rightarrow> Player \<Rightarrow> Player" where
  "move_player m delta_time p =
     (let d = player_dog p;
          current_position = dog_position d;
          speed = dog_speed d
      in if IsMoving d \<or> \<bar>vx speed\<bar> > 1 / 10 ^ 10 \<or> \<bar>vy speed\<bar> > 1 / 10 ^ 10 then
           let move_result = MoveDog (map_roads m) current_position speed delta_time;
               d1 = d\<lparr>dog_position := mr_position move_result\<rparr>;
               d2 = (if hit_boundary move_result then Stop d1 else d1)
           in p\<lparr>player_dog := d2\<rparr>
         else p)"

subsection \<open>GameSession::HandleCollisions\<close>

definition loot_items :: "Loot list \<Rightarrow> Item list" where
  "loot_items loots = map (\<lambda>l. \<lparr>item_position = loot_position l, item_width = 0\<rparr>) loots"

definition office_items :: "Office list \<Rightarrow> Item list" where
  "office_items offices = map (\<lambda>off. \<lparr>item_position = office_position off, item_width = 0.5\<rparr>) offices"

definition player_gatherers :: "Player list \<Rightarrow> Gatherer list" where
  "player_gatherers players =
     map (\<lambda>p. \<lparr>start_pos = previous_position (player_dog p),
               end_pos = dog_position (player_dog p), gatherer_width = 0.6\<rparr>) players"

definition to_game_event :: "EventType \<Rightarrow> GatheringEvent \<Rightarrow> GameEvent" where
  "to_game_event ty event =
     \<lparr>ev_time = ge_time event, ev_type = ty, ev_gatherer_id = ge_gatherer_id event,
      ev_item_id = ge_item_id event\<rparr>"

text \<open>The events of both detector runs, before they are sorted.\<close>

definition all_events :: "GameSession \<Rightarrow> GameEvent list" where
  "all_events s =
     (let loot_events = FindGatherEvents (loot_items (session_loots s))
                          (player_gatherers (session_players s));
          office_events = FindGatherEvents (office_items (map_offices (session_map s)))
                          (player_gatherers (session_players s))
      in map (to_game_event LOOT) loot_events @ map (to_game_event OFFICE) office_events)"

text \<open>
  \<^verbatim>\<open>std::sort\<close> is not stable: it may return any arrangement of its input that is in
  nondecreasing order of the key. \<open>std_sort_result key xs ys\<close> says that \<open>ys\<close> is such an
  arrangement of \<open>xs\<close>.
\<close>

definition std_sort_result :: "('a \<Rightarrow> real) \<Rightarrow> 'a list \<Rightarrow> 'a list \<Rightarrow> bool" where
  "std_sort_result key xs ys \<longleftrightarrow> mset ys = mset xs \<and> sorted (map key ys)"

text \<open>
  \<^verbatim>\<open>std::sort\<close> with a proposal for the arrangement: where the proposal is an
  arrangement that \<^verbatim>\<open>std::sort\<close> may return it is the result, and the stable sort is the
  result otherwise. So the result is always a sorted arrangement of the input, and
  every such arrangement is the result for some proposal.
\<close>

definition std_sort :: "('a list \<Rightarrow> 'a list) \<Rightarrow> ('a \<Rightarrow> real) \<Rightarrow> 'a list \<Rightarrow> 'a list" where
  "std_sort proposal key xs =
     (if std_sort_result key xs (proposal xs) then proposal xs else sort_key key xs)"

text \<open>
  The state of the loop over the events: the players and the set \<^verbatim>\<open>collected_loots\<close>.
  The loot list is not modified in the loop. An \<^verbatim>\<open>OFFICE\<close> event indexes the players
  without a check; the detector only returns indices below their number.
\<close>

definition process_event :: "Loot list \<Rightarrow> GameEvent \<Rightarrow> Player list \<times> nat set \<Rightarrow> Player list \<times> nat set" where
  "process_event loots event st =
     (let (players, collected_loots) = st
      in if ev_type event = LOOT then
           if ev_gatherer_id event \<ge> length players \<or> ev_item_id event \<ge> length loots then st
           else
             let player = players ! ev_gatherer_id event;
                 loot = loots ! ev_item_id event
             in if loot_id loot \<in> collected_loots then st
                else if \<not> IsBagFull player
                     then (players[ev_gatherer_id event := AddToBag loot player],
                           insert (loot_id loot) collected_loots)
                     else st
         else
           let player = players ! ev_gatherer_id event;
               total_score = fold (\<lambda>loot sum. int_plus sum (loot_value loot)) (bag player) 0
           in (players[ev_gatherer_id event := ClearBag (AddScore total_score player)],
               collected_loots))"

definition process_events :: "Loot list \<Rightarrow> GameEvent list \<Rightarrow> Player list \<times> nat set \<Rightarrow> Player list \<times> nat set" where
  "process_events loots events st = fold (process_event loots) events st"

text \<open>The rest of \<^verbatim>\<open>HandleCollisions\<close>, from the sorted events on.\<close>

definition apply_events :: "GameEvent list \<Rightarrow> GameSession \<Rightarrow> GameSession" where
  "apply_events events s =
     (let (players, collected_loots) =
            process_events (session_loots s) events (session_players s, {})
      in s\<lparr>session_players := players,
           session_loots := filter (\<lambda>loot. loot_id loot \<notin> collected_loots) (session_loots s)\<rparr>)"

definition HandleCollisions :: "TickEnv \<Rightarrow> GameSession \<Rightarrow> GameSession" where
  "HandleCollisions env s = apply_events (std_sort (env_sort env) ev_time (all_events s)) s"

text \<open>
  \<open>pickup_succeeds\<close> is the condition under which the loop body reaches
  \<^verbatim>\<open>player.AddToBag(loot)\<close>, and \<open>successful_pickups\<close> lists the events for which it
  holds when the events are processed in order.
\<close>

definition pickup_succeeds :: "Loot list \<Rightarrow> GameEvent \<Rightarrow> Player list \<times> nat set \<Rightarrow> bool" where
  "pickup_succeeds loots event st \<longleftrightarrow>
     ev_type event = LOOT \<and> ev_gatherer_id event < length (fst st) \<and>
     ev_item_id event < length loots \<and>
     loot_id (loots ! ev_item_id event) \<notin> snd st \<and>
     \<not> IsBagFull (fst st ! ev_gatherer_id event)"





subsection \<open>GameSession::RetireInactivePlayers\<close>

text \<open>
  The second component is the list of the players that the callback of the game was
  called with, in the order of the calls.
\<close>

definition retire_step :: "GameLink \<Rightarrow> Player \<Rightarrow> Player list \<times> Player list \<Rightarrow> Player list \<times> Player list" where
  "retire_step game p st =
     (let (active_players, calls) = st
      in if idle_time p \<ge> link_dog_retirement_time game
         then (active_players, if link_callback_installed game then calls @ [p] else calls)
         else (active_players @ [p], calls))"

definition RetireInactivePlayers :: "GameLink option \<Rightarrow> GameSession \<Rightarrow> GameSession \<times> Player list" where
  "RetireInactivePlayers game_ptr s =
     (case game_ptr of
        None \<Rightarrow> (s, [])
      | Some game \<Rightarrow>
          let (active_players, calls) = fold (retire_step game) (session_players s) ([], [])
          in (s\<lparr>session_players := active_players\<rparr>, calls))"

subsection \<open>The tick\<close>

text \<open>The tick up to \<^verbatim>\<open>HandleCollisions\<close>, and up to \<^verbatim>\<open>RetireInactivePlayers\<close>.\<close>

definition before_collisions :: "TickEnv \<Rightarrow> real \<Rightarrow> GameSession \<Rightarrow> GameSession" where
  "before_collisions env delta_time s =
     (let s1 = s\<lparr>session_players := map (update_times delta_time) (session_players s)\<rparr>;
          s2 = generate_loots env delta_time s1;
          s3 = s2\<lparr>session_players := map save_previous_position (session_players s2)\<rparr>
      in s3\<lparr>session_players := map (move_player (session_map s3) delta_time) (session_players s3)\<rparr>)"

definition before_retirement :: "TickEnv \<Rightarrow> real \<Rightarrow> GameSession \<Rightarrow> GameSession" where
  "before_retirement env delta_time s = HandleCollisions env (before_collisions env delta_time s)"

definition UpdateState :: "GameLink option \<Rightarrow> TickEnv \<Rightarrow> real \<Rightarrow> GameSession \<Rightarrow> GameSession \<times> Player list" where
  "UpdateState game_ptr env delta_time s =
     RetireInactivePlayers game_ptr (before_retirement env delta_time s)"

subsection \<open>Runs of ticks\<close>

text \<open>
  The loots that a tick spawns, and the ids of the loots that its pickup events move into
  a bag.
\<close>

definition spawned :: "TickEnv \<Rightarrow> real \<Rightarrow> GameSession \<Rightarrow> Loot list" where
  "spawned env delta_time s =
     drop (length (session_loots s)) (session_loots (before_collisions env delta_time s))"






section \<open>The game (model.h, model.cpp)\<close>

text \<open>
  \<open>retired_player_callback\<close> tells whether a callback is installed
  (\<^verbatim>\<open>std::function\<close> not empty).
\<close>

record Game =
  game_maps :: "Map list"
  game_sessions :: "GameSession list"
  loot_generator_config :: "LootGenerator option"
  dog_retirement_time :: real
  retired_player_callback :: bool

definition FindMap :: "Game \<Rightarrow> string \<Rightarrow> Map option" where
  "FindMap game mid = find (\<lambda>m. map_id m = mid) (game_maps game)"

text \<open>\<^verbatim>\<open>FindSessionByMapId\<close> returns a pointer into the sessions; the model returns the index.\<close>

fun find_session :: "string \<Rightarrow> GameSession list \<Rightarrow> nat option" where
  "find_session mid [] = None"
| "find_session mid (s # ss) =
     (if map_id (session_map s) = mid then Some 0
      else map_option Suc (find_session mid ss))"

definition FindSessionByMapId :: "Game \<Rightarrow> string \<Rightarrow> nat option" where
  "FindSessionByMapId game mid = find_session mid (game_sessions game)"

text \<open>
  \<^verbatim>\<open>GetOrCreateSession\<close> returns a reference to a session of the game: the model returns
  the game and the index of the session, or \<open>None\<close> when the program throws
  \<^verbatim>\<open>invalid_argument\<close>.
\<close>

definition GetOrCreateSession :: "Game \<Rightarrow> string \<Rightarrow> (Game \<times> nat) option" where
  "GetOrCreateSession game mid =
     (case FindSessionByMapId game mid of
        Some i \<Rightarrow> Some (game, i)
      | None \<Rightarrow>
          (case FindMap game mid of
             Some m \<Rightarrow>
               let session = GameSession_new (mid @ ''_session'') m;
                   session' = (case loot_generator_config game of
                                 Some g \<Rightarrow> SetLootGenerator g session
                               | None \<Rightarrow> session)
               in Some (game\<lparr>game_sessions := game_sessions game @ [session']\<rparr>,
                        length (game_sessions game))
           | None \<Rightarrow> None))"

definition game_link :: "Game \<Rightarrow> GameLink" where
  "game_link game =
     \<lparr>link_dog_retirement_time = dog_retirement_time game,
      link_callback_installed = retired_player_callback game\<rparr>"

text \<open>
  \<^verbatim>\<open>Game::UpdateState\<close>: every session of a game points back to the game. \<open>envs i\<close> is what
  the tick of the \<open>i\<close>-th session takes from outside.
\<close>

definition Game_UpdateState :: "(nat \<Rightarrow> TickEnv) \<Rightarrow> real \<Rightarrow> Game \<Rightarrow> Game \<times> Player list" where
  "Game_UpdateState envs delta_time game =
     (let results = map (\<lambda>i. UpdateState (Some (game_link game)) (envs i) delta_time
                                 (game_sessions game ! i))
                        [0..<length (game_sessions game)]
      in (game\<lparr>game_sessions := map fst results\<rparr>, concat (map snd results)))"

section \<open>State snapshot (state\_serializer.cpp)\<close>

text \<open>
  JSON values as the program sees them after a snapshot was written to the state file
  and parsed again: an integer is of kind \<^verbatim>\<open>int64\<close> when it lies in the range of
  \<^verbatim>\<open>int64_t\<close> (and \<^verbatim>\<open>as_int64\<close> throws otherwise), a \<^verbatim>\<open>double\<close> stays a \<^verbatim>\<open>double\<close>.
  An object is the list of its members. An accessor that throws returns \<open>None\<close>.
\<close>

datatype json =
    JNull
  | JBool bool
  | JInt int
  | JDouble real
  | JString string
  | JArray "json list"
  | JObject "(string \<times> json) list"

definition contains :: "(string \<times> json) list \<Rightarrow> string \<Rightarrow> bool" where
  "contains obj k \<longleftrightarrow> map_of obj k \<noteq> None"

definition json_at :: "(string \<times> json) list \<Rightarrow> string \<Rightarrow> json option" where
  "json_at obj k = map_of obj k"

fun as_object :: "json \<Rightarrow> (string \<times> json) list option" where
  "as_object (JObject obj) = Some obj"
| "as_object _ = None"

fun as_array :: "json \<Rightarrow> json list option" where
  "as_array (JArray vs) = Some vs"
| "as_array _ = None"

fun as_string :: "json \<Rightarrow> string option" where
  "as_string (JString str) = Some str"
| "as_string _ = None"

fun as_double :: "json \<Rightarrow> real option" where
  "as_double (JDouble v) = Some v"
| "as_double _ = None"

fun as_int64 :: "json \<Rightarrow> int option" where
  "as_int64 (JInt i) = (if - (2 ^ 63) \<le> i \<and> i < 2 ^ 63 then Some i else None)"
| "as_int64 _ = None"

text \<open>
  A \<^verbatim>\<open>std::string\<close> built from \<^verbatim>\<open>c_str()\<close> ends at the first zero character.
\<close>

definition c_str :: "string \<Rightarrow> string" where
  "c_str str = takeWhile (\<lambda>c. c \<noteq> CHR 0x00) str"

subsection \<open>Serialization\<close>

definition SerializeLoot :: "Loot \<Rightarrow> (string \<times> json) list" where
  "SerializeLoot loot =
     [(''id'', JInt (to_int64 (loot_id loot))),
      (''type'', JInt (to_int64 (loot_type loot))),
      (''value'', JInt (loot_value loot)),
      (''position'', JObject [(''x'', JDouble (Round6 (pos_x (loot_position loot)))),
                              (''y'', JDouble (Round6 (pos_y (loot_position loot))))])]"

definition direction_name :: "Direction \<Rightarrow> string" where
  "direction_name d =
     (case d of NORTH \<Rightarrow> ''north'' | SOUTH \<Rightarrow> ''south'' | WEST \<Rightarrow> ''west'' | EAST \<Rightarrow> ''east'')"

definition SerializeDog :: "Dog \<Rightarrow> (string \<times> json) list" where
  "SerializeDog d =
     [(''id'', JString (dog_id d)),
      (''name'', JString (dog_name d)),
      (''map_id'', JString (dog_map_id d)),
      (''position'', JObject [(''x'', JDouble (Round6 (pos_x (dog_position d)))),
                              (''y'', JDouble (Round6 (pos_y (dog_position d))))]),
      (''speed'', JObject [(''vx'', JDouble (Round6 (vx (dog_speed d)))),
                           (''vy'', JDouble (Round6 (vy (dog_speed d))))]),
      (''direction'', JString (direction_name (dog_direction d)))]"

definition SerializeToken :: "string \<Rightarrow> string" where
  "SerializeToken tok = tok"

definition SerializePlayer :: "Player \<Rightarrow> (string \<times> json) list" where
  "SerializePlayer p =
     [(''id'', JInt (to_int64 (player_id p))),
      (''token'', JString (SerializeToken (player_token p))),
      (''score'', JInt (score p)),
      (''bag_capacity'', JInt (to_int64 (bag_capacity p))),
      (''dog'', JObject (SerializeDog (player_dog p))),
      (''bag'', JArray (map (\<lambda>loot. JObject (SerializeLoot loot)) (bag p)))]"

definition SerializeSession :: "GameSession \<Rightarrow> (string \<times> json) list" where
  "SerializeSession s =
     [(''id'', JString (session_id s)),
      (''map_id'', JString (map_id (session_map s))),
      (''next_loot_id'', JInt (int (next_loot_id s))),
      (''players'', JArray (map (\<lambda>p. JObject (SerializePlayer p)) (session_players s))),
      (''loots'', JArray (map (\<lambda>loot. JObject (SerializeLoot loot)) (session_loots s)))]"

definition SerializeGame :: "Game \<Rightarrow> (string \<times> json) list" where
  "SerializeGame game =
     [(''sessions'', JArray (map (\<lambda>s. JObject (SerializeSession s)) (game_sessions game)))]"

subsection \<open>Deserialization\<close>

definition DeserializeToken :: "string \<Rightarrow> string" where
  "DeserializeToken token_str = token_str"

definition DeserializeLoot :: "(string \<times> json) list \<Rightarrow> Loot option" where
  "DeserializeLoot json_val =
     (if \<not> contains json_val ''id'' \<or> \<not> contains json_val ''type'' \<or>
         \<not> contains json_val ''value'' \<or> \<not> contains json_val ''position''
      then None
      else do {
        lid \<leftarrow> json_at json_val ''id'' \<bind> as_int64;
        type \<leftarrow> json_at json_val ''type'' \<bind> as_int64;
        v \<leftarrow> json_at json_val ''value'' \<bind> as_int64;
        pos_obj \<leftarrow> json_at json_val ''position'' \<bind> as_object;
        px \<leftarrow> json_at pos_obj ''x'' \<bind> as_double;
        py \<leftarrow> json_at pos_obj ''y'' \<bind> as_double;
        Some \<lparr>loot_id = to_size_t lid, loot_type = to_size_t type,
              loot_position = \<lparr>pos_x = px, pos_y = py\<rparr>, loot_value = to_int v\<rparr>
      })"

definition direction_of_name :: "string \<Rightarrow> Direction" where
  "direction_of_name dir_str =
     (if dir_str = ''north'' then NORTH
      else if dir_str = ''south'' then SOUTH
      else if dir_str = ''west'' then WEST
      else if dir_str = ''east'' then EAST
      else NORTH)"

definition DeserializeDog :: "(string \<times> json) list \<Rightarrow> Dog option" where
  "DeserializeDog json_val =
     (if \<not> contains json_val ''id'' \<or> \<not> contains json_val ''name'' \<or>
         \<not> contains json_val ''map_id'' \<or> \<not> contains json_val ''position'' \<or>
         \<not> contains json_val ''speed'' \<or> \<not> contains json_val ''direction''
      then None
      else do {
        did \<leftarrow> json_at json_val ''id'' \<bind> as_string;
        name \<leftarrow> json_at json_val ''name'' \<bind> as_string;
        mid \<leftarrow> json_at json_val ''map_id'' \<bind> as_string;
        pos_obj \<leftarrow> json_at json_val ''position'' \<bind> as_object;
        px \<leftarrow> json_at pos_obj ''x'' \<bind> as_double;
        py \<leftarrow> json_at pos_obj ''y'' \<bind> as_double;
        speed_obj \<leftarrow> json_at json_val ''speed'' \<bind> as_object;
        svx \<leftarrow> json_at speed_obj ''vx'' \<bind> as_double;
        svy \<leftarrow> json_at speed_obj ''vy'' \<bind> as_double;
        dir_str \<leftarrow> json_at json_val ''direction'' \<bind> as_string;
        Some ((Dog_new (c_str did) (c_str name) (c_str mid))
               \<lparr>dog_position := \<lparr>pos_x = px, pos_y = py\<rparr>,
                dog_speed := \<lparr>vx = svx, vy = svy\<rparr>,
                dog_direction := direction_of_name (c_str dir_str)\<rparr>)
      })"

text \<open>
  One element of the \<^verbatim>\<open>bag\<close> array: an element that fails to deserialize is skipped
  (the exception is caught inside the loop).
\<close>

definition restore_bag_loot :: "json \<Rightarrow> Player \<Rightarrow> Player" where
  "restore_bag_loot loot_val player =
     (case as_object loot_val \<bind> DeserializeLoot of
        Some loot \<Rightarrow> AddToBag loot player
      | None \<Rightarrow> player)"

definition DeserializePlayer :: "(string \<times> json) list \<Rightarrow> Player option" where
  "DeserializePlayer json_val =
     (if \<not> contains json_val ''id'' \<or> \<not> contains json_val ''token'' \<or>
         \<not> contains json_val ''score'' \<or> \<not> contains json_val ''bag_capacity'' \<or>
         \<not> contains json_val ''dog''
      then None
      else do {
        pid \<leftarrow> json_at json_val ''id'' \<bind> as_int64;
        token_str \<leftarrow> json_at json_val ''token'' \<bind> as_string;
        sc \<leftarrow> json_at json_val ''score'' \<bind> as_int64;
        capacity \<leftarrow> json_at json_val ''bag_capacity'' \<bind> as_int64;
        d \<leftarrow> json_at json_val ''dog'' \<bind> as_object \<bind> DeserializeDog;
        let player = AddScore (to_int sc)
                       (Player_new (to_size_t pid) d (DeserializeToken (c_str token_str))
                          (to_size_t capacity));
        if contains json_val ''bag'' then do {
          bag_array \<leftarrow> json_at json_val ''bag'' \<bind> as_array;
          Some (fold restore_bag_loot bag_array player)
        } else Some player
      })"

definition restore_player :: "json \<Rightarrow> GameSession \<Rightarrow> GameSession" where
  "restore_player player_val session =
     (case as_object player_val \<bind> DeserializePlayer of
        Some player \<Rightarrow> AddPlayer player session
      | None \<Rightarrow> session)"

definition restore_loot :: "json \<Rightarrow> GameSession \<Rightarrow> GameSession" where
  "restore_loot loot_val session =
     (case as_object loot_val \<bind> DeserializeLoot of
        Some loot \<Rightarrow> AddLoot loot session
      | None \<Rightarrow> session)"

text \<open>
  \<^verbatim>\<open>DeserializeSession\<close> changes the game in place and may throw after it has changed
  it: the model returns the game as it is when the function is left, and whether it was
  left by \<^verbatim>\<open>return\<close> (\<open>True\<close>) or by an exception (\<open>False\<close>). The three steps after
  \<^verbatim>\<open>GetOrCreateSession\<close> work on the session at index \<open>i\<close>.
\<close>

definition restore_next_loot_id :: "(string \<times> json) list \<Rightarrow> GameSession \<Rightarrow> GameSession option" where
  "restore_next_loot_id json_val session =
     (if contains json_val ''next_loot_id''
      then map_option (\<lambda>n. SetNextLootId (to_size_t n) session)
             (json_at json_val ''next_loot_id'' \<bind> as_int64)
      else Some session)"

definition restore_players :: "(string \<times> json) list \<Rightarrow> GameSession \<Rightarrow> GameSession option" where
  "restore_players json_val session =
     (if contains json_val ''players''
      then map_option (\<lambda>players_array. fold restore_player players_array session)
             (json_at json_val ''players'' \<bind> as_array)
      else Some session)"

definition restore_loots :: "(string \<times> json) list \<Rightarrow> GameSession \<Rightarrow> GameSession option" where
  "restore_loots json_val session =
     (if contains json_val ''loots''
      then map_option (\<lambda>loots_array. fold restore_loot loots_array session)
             (json_at json_val ''loots'' \<bind> as_array)
      else Some session)"

definition DeserializeSession :: "Game \<Rightarrow> (string \<times> json) list \<Rightarrow> Game \<times> bool" where
  "DeserializeSession game json_val =
     (if \<not> contains json_val ''map_id'' then (game, False)
      else
        case json_at json_val ''map_id'' \<bind> as_string of
          None \<Rightarrow> (game, False)
        | Some map_id_json \<Rightarrow>
            (case GetOrCreateSession game (c_str map_id_json) of
               None \<Rightarrow> (game, False)
             | Some (game1, i) \<Rightarrow>
                 (case restore_next_loot_id json_val (game_sessions game1 ! i) of
                    None \<Rightarrow> (game1, False)
                  | Some s1 \<Rightarrow>
                      (case restore_players json_val s1 of
                         None \<Rightarrow> (game1\<lparr>game_sessions := (game_sessions game1)[i := s1]\<rparr>, False)
                       | Some s2 \<Rightarrow>
                           (case restore_loots json_val s2 of
                              None \<Rightarrow>
                                (game1\<lparr>game_sessions := (game_sessions game1)[i := s2]\<rparr>, False)
                            | Some s3 \<Rightarrow>
                                (game1\<lparr>game_sessions := (game_sessions game1)[i := s3]\<rparr>,
                                 True))))))"

text \<open>
  \<^verbatim>\<open>DeserializeGame\<close> catches what \<^verbatim>\<open>DeserializeSession\<close> throws, and what
  \<^verbatim>\<open>as_object\<close> throws for an element that is not an object, and goes on with the next
  session.
\<close>

definition restore_session :: "json \<Rightarrow> Game \<Rightarrow> Game" where
  "restore_session session_val game =
     (case as_object session_val of
        None \<Rightarrow> game
      | Some obj \<Rightarrow> fst (DeserializeSession game obj))"

definition DeserializeGame :: "Game \<Rightarrow> (string \<times> json) list \<Rightarrow> Game option" where
  "DeserializeGame game json_val =
     (if \<not> contains json_val ''sessions'' then Some game
      else map_option (\<lambda>sessions_array. fold restore_session sessions_array game)
             (json_at json_val ''sessions'' \<bind> as_array))"

section \<open>Equality of sessions modulo rounding\<close>

text \<open>
  The words of the claim on the round trip of a snapshot: a session and its restored copy
  have the same session id, map id and \<^verbatim>\<open>next_loot_id\<close>, and the same players and live
  loots in the same order, where players agree on id, token, score, bag capacity, bag
  contents and the state of the dog that the snapshot holds (id, name, map id, position,
  speed, direction), and coordinates agree after rounding to 6 decimals.
\<close>

definition round_position :: "Position \<Rightarrow> Position" where
  "round_position p = \<lparr>pos_x = Round6 (pos_x p), pos_y = Round6 (pos_y p)\<rparr>"

definition round_speed :: "Speed \<Rightarrow> Speed" where
  "round_speed v = \<lparr>vx = Round6 (vx v), vy = Round6 (vy v)\<rparr>"

definition loot_equal_mod_rounding :: "Loot \<Rightarrow> Loot \<Rightarrow> bool" where
  "loot_equal_mod_rounding l l' \<longleftrightarrow>
     loot_id l' = loot_id l \<and> loot_type l' = loot_type l \<and> loot_value l' = loot_value l \<and>
     loot_position l' = round_position (loot_position l)"

definition dog_equal_mod_rounding :: "Dog \<Rightarrow> Dog \<Rightarrow> bool" where
  "dog_equal_mod_rounding d d' \<longleftrightarrow>
     dog_id d' = dog_id d \<and> dog_name d' = dog_name d \<and> dog_map_id d' = dog_map_id d \<and>
     dog_direction d' = dog_direction d \<and>
     dog_position d' = round_position (dog_position d) \<and>
     dog_speed d' = round_speed (dog_speed d)"

definition player_equal_mod_rounding :: "Player \<Rightarrow> Player \<Rightarrow> bool" where
  "player_equal_mod_rounding p p' \<longleftrightarrow>
     player_id p' = player_id p \<and> player_token p' = player_token p \<and> score p' = score p \<and>
     bag_capacity p' = bag_capacity p \<and>
     list_all2 loot_equal_mod_rounding (bag p) (bag p') \<and>
     dog_equal_mod_rounding (player_dog p) (player_dog p')"

definition session_equal_mod_rounding :: "GameSession \<Rightarrow> GameSession \<Rightarrow> bool" where
  "session_equal_mod_rounding s s' \<longleftrightarrow>
     session_id s' = session_id s \<and>
     map_id (session_map s') = map_id (session_map s) \<and>
     next_loot_id s' = next_loot_id s \<and>
     list_all2 player_equal_mod_rounding (session_players s) (session_players s') \<and>
     list_all2 loot_equal_mod_rounding (session_loots s) (session_loots s')"

text \<open>
  What deserialization returns for the snapshot of a loot, a dog, a player and a session
  (lemmas \<open>DeserializeLoot_SerializeLoot\<close> to \<open>DeserializeSession_SerializeSession\<close>): the
  previous position of the dog, the play time and the idle time are not in the snapshot
  and start again from zero, the map is looked up in the game, and the loot generator is
  a copy of the game's.
\<close>

definition restored_loot :: "Loot \<Rightarrow> Loot" where
  "restored_loot l = l\<lparr>loot_position := round_position (loot_position l)\<rparr>"

definition restored_dog :: "Dog \<Rightarrow> Dog" where
  "restored_dog d =
     d\<lparr>dog_position := round_position (dog_position d), dog_speed := round_speed (dog_speed d),
       previous_position := \<lparr>pos_x = 0, pos_y = 0\<rparr>\<rparr>"

definition restored_player :: "Player \<Rightarrow> Player" where
  "restored_player p =
     p\<lparr>player_dog := restored_dog (player_dog p), bag := map restored_loot (bag p),
       play_time := 0, idle_time := 0\<rparr>"

definition restored_session :: "Game \<Rightarrow> GameSession \<Rightarrow> GameSession" where
  "restored_session game s =
     \<lparr>session_id = map_id (session_map s) @ ''_session'',
      session_map = the (FindMap game (map_id (session_map s))),
      session_players = map restored_player (session_players s),
      session_loots = map restored_loot (session_loots s),
      next_loot_id = next_loot_id s,
      loot_generator = loot_generator_config game\<rparr>"

text \<open>
  The sessions that the round trip is proved for: the values fit their C++ types
  (\<^verbatim>\<open>size_t\<close> below \<open>2^64\<close>, \<^verbatim>\<open>int\<close> in 32 bits), \<^verbatim>\<open>next_loot_id\<close> is below \<open>2^63\<close>,
  the bags are within their capacity, the session has the id that \<^verbatim>\<open>GetOrCreateSession\<close>
  gave it, and no string contains the zero character.
\<close>

definition no_zero_char :: "string \<Rightarrow> bool" where
  "no_zero_char str \<longleftrightarrow> CHR 0x00 \<notin> set str"

definition loot_wf :: "Loot \<Rightarrow> bool" where
  "loot_wf l \<longleftrightarrow> fits_size_t (loot_id l) \<and> fits_size_t (loot_type l) \<and> fits_int (loot_value l)"

definition dog_wf :: "Dog \<Rightarrow> bool" where
  "dog_wf d \<longleftrightarrow> no_zero_char (dog_id d) \<and> no_zero_char (dog_name d) \<and> no_zero_char (dog_map_id d)"

definition player_wf :: "Player \<Rightarrow> bool" where
  "player_wf p \<longleftrightarrow>
     fits_size_t (player_id p) \<and> fits_size_t (bag_capacity p) \<and> fits_int (score p) \<and>
     no_zero_char (player_token p) \<and> dog_wf (player_dog p) \<and>
     list_all loot_wf (bag p) \<and> length (bag p) \<le> bag_capacity p"

definition session_wf :: "GameSession \<Rightarrow> bool" where
  "session_wf s \<longleftrightarrow>
     session_id s = map_id (session_map s) @ ''_session'' \<and>
     no_zero_char (map_id (session_map s)) \<and>
     next_loot_id s < 2 ^ 63 \<and>
     list_all player_wf (session_players s) \<and>
     list_all loot_wf (session_loots s)"

section \<open>Invariants used in the proofs\<close>

text \<open>
  The invariant of the second loop of \<^verbatim>\<open>MoveDog\<close>, where \<open>cs\<close> are the candidates of
  the roads visited so far: either there was none and the state is the initial one, or
  the state holds a candidate closest to the final position, and its squared distance.
\<close>

definition slide_inv :: "Position \<Rightarrow> Position \<Rightarrow> Position list \<Rightarrow> Position \<times> real option \<Rightarrow> bool" where
  "slide_inv start final_position cs st \<longleftrightarrow>
     (cs = [] \<and> st = (start, None)) \<or>
     (fst st \<in> set cs \<and> snd st = Some (distance_sq final_position (fst st)) \<and>
      (\<forall>p \<in> set cs. distance_sq final_position (fst st) \<le> distance_sq final_position p))"

text \<open>The bound of the bag.\<close>

definition bag_ok :: "Player \<Rightarrow> bool" where
  "bag_ok p \<longleftrightarrow> length (bag p) \<le> bag_capacity p"


text \<open>
  The same with the bags: no loot id is twice in a bag, in two bags, or both in a bag and
  among the live loots, and the ids in the bags are below the counter too.
\<close>

definition bag_ids :: "Player list \<Rightarrow> nat list" where
  "bag_ids players = concat (map (\<lambda>p. map loot_id (bag p)) players)"



section \<open>Example inputs\<close>

text \<open>The two roads of the corner scenario: (0,0)-(10,0) and (10,0)-(10,10).\<close>

definition ex_H :: Road where
  "ex_H = Road_HORIZONTAL \<lparr>pos_x = 0, pos_y = 0\<rparr> 10"

definition ex_V :: Road where
  "ex_V = Road_VERTICAL \<lparr>pos_x = 10, pos_y = 0\<rparr> 10"

text \<open>
  A session on a map with the road (0,0)-(10,0) and an office at (2, 0). The first player
  carries one loot and runs from (0, 0) to the right at speed 10; the second stands at
  (3, 5) and has been idle for 59.5 seconds. One loot lies at (5, 0). In the tick the
  generator returns 1, the new loot is put at (8, 0), and the sort is stable.
\<close>

definition ex_map :: Map where
  "ex_map = \<lparr>map_id = ''map1'', map_roads = [ex_H],
             map_offices = [\<lparr>office_id = ''o0'', office_position = \<lparr>pos_x = 2, pos_y = 0\<rparr>,
                             office_offset = \<lparr>pos_x = 5, pos_y = 0\<rparr>\<rparr>],
             map_loot_types = [Some 5, Some 3], map_bag_capacity = 3\<rparr>"

definition ex_player0 :: Player where
  "ex_player0 =
     \<lparr>player_id = 0,
      player_dog = (Dog_new ''a_map1'' ''a'' ''map1'')\<lparr>dog_speed := \<lparr>vx = 10, vy = 0\<rparr>, dog_direction := EAST\<rparr>,
      player_token = ''00000000000000000000000000000001'',
      bag = [\<lparr>loot_id = 3, loot_type = 0, loot_position = \<lparr>pos_x = 1, pos_y = 0\<rparr>, loot_value = 5\<rparr>],
      bag_capacity = 3, score = 0, play_time = 2, idle_time = 0\<rparr>"

definition ex_player1 :: Player where
  "ex_player1 =
     \<lparr>player_id = 1,
      player_dog = (Dog_new ''b_map1'' ''b'' ''map1'')\<lparr>dog_position := \<lparr>pos_x = 3, pos_y = 5\<rparr>\<rparr>,
      player_token = ''00000000000000000000000000000002'',
      bag = [], bag_capacity = 3, score = 2, play_time = 70, idle_time = 59.5\<rparr>"

definition ex_generator :: LootGenerator where
  "ex_generator = \<lparr>base_interval = 5, base_probability = 0.5, time_without_loot = 0\<rparr>"

definition ex_session :: GameSession where
  "ex_session =
     \<lparr>session_id = ''map1_session'', session_map = ex_map,
      session_players = [ex_player0, ex_player1],
      session_loots = [\<lparr>loot_id = 7, loot_type = 1, loot_position = \<lparr>pos_x = 5, pos_y = 0\<rparr>,
                        loot_value = 3\<rparr>],
      next_loot_id = 8, loot_generator = Some ex_generator\<rparr>"

definition ex_env :: TickEnv where
  "ex_env = \<lparr>env_generate = (\<lambda>g dt loot_count looter_count. (1, g)),
             env_type = (\<lambda>i. 0), env_position = (\<lambda>i. \<lparr>pos_x = 8, pos_y = 0\<rparr>),
             env_sort = sort_key ev_time\<rparr>"

definition ex_link :: GameLink where
  "ex_link = \<lparr>link_dog_retirement_time = 60, link_callback_installed = True\<rparr>"



definition ex_link_late :: GameLink where
  "ex_link_late = \<lparr>link_dog_retirement_time = 100, link_callback_installed = True\<rparr>"

definition ex_game :: Game where
  "ex_game = \<lparr>game_maps = [ex_map], game_sessions = [ex_session],
              loot_generator_config = Some ex_generator, dog_retirement_time = 60,
              retired_player_callback = True\<rparr>"

text \<open>
  A game whose only player joined under a name with a zero character in it, and the game
  without sessions that its snapshot is restored into.
\<close>

definition ex_name_nul :: string where
  "ex_name_nul = [CHR ''a'', CHR 0x00, CHR ''b'']"

definition ex_player_nul :: Player where
  "ex_player_nul =
     Player_new 0 (Dog_new (ex_name_nul @ ''_map1'') ex_name_nul ''map1'')
       ''00000000000000000000000000000001'' 3"

definition ex_game_nul :: Game where
  "ex_game_nul =
     ex_game\<lparr>game_sessions :=
       [AddPlayer ex_player_nul
          (SetLootGenerator ex_generator (GameSession_new ''map1_session'' ex_map))]\<rparr>"

definition ex_game_empty :: Game where
  "ex_game_empty = ex_game\<lparr>game_sessions := []\<rparr>"


section \<open>The collision detector reports by the gatherer's width alone\<close>

lemma item_events_set:
  "set (item_events items gi g ii) =
     (case TryCollectPoint (start_pos g) (end_pos g) (item_position (items ! ii)) of
        None \<Rightarrow> {}
      | Some r \<Rightarrow> if 0 \<le> proj_ratio r \<and> proj_ratio r \<le> 1 \<and>
                      cr_sq_distance r \<le> gatherer_width g * gatherer_width g
                   then {\<lparr>ge_item_id = ii, ge_gatherer_id = gi,
                          ge_sq_distance = cr_sq_distance r, ge_time = proj_ratio r\<rparr>}
                   else {})"
  by (simp add: item_events_def split: option.splits)

lemma found_events_index:
  assumes "e \<in> set (found_events items gatherers)"
  shows "ge_gatherer_id e < length gatherers \<and> ge_item_id e < length items \<and>
         \<not> (pos_x (start_pos (gatherers ! ge_gatherer_id e)) =
              pos_x (end_pos (gatherers ! ge_gatherer_id e)) \<and>
            pos_y (start_pos (gatherers ! ge_gatherer_id e)) =
              pos_y (end_pos (gatherers ! ge_gatherer_id e)))"
  using assms
  by (auto simp: found_events_def gatherer_events_def Let_def item_events_set
           split: if_splits option.splits)

lemma FindGatherEvents_set:
  "set (FindGatherEvents items gatherers) = set (found_events items gatherers)"
  by (simp add: FindGatherEvents_def)

text \<open>
  Claim C1. The claim: an event is reported for a gatherer and an item exactly when the
  gatherer moved, the projection ratio lies in [0, 1] and the squared distance is at most
  the square of the sum of the two radii. The program compares the squared distance with
  the square of the gatherer's width alone. At the input of the test "Gatherer width
  exactly matches distance" (item at (5, 1) of width 0.5, gatherer from (0, 0) to (10, 0)
  of width 0.5) the projection ratio is 1/2 and the squared distance is 1, which is at
  most (0.5 + 0.5) squared, and the program reports no event.
\<close>

theorem FindGatherEvents_ignores_item_width:
  "FindGatherEvents
     [\<lparr>item_position = \<lparr>pos_x = 5, pos_y = 1\<rparr>, item_width = 0.5\<rparr>]
     [\<lparr>start_pos = \<lparr>pos_x = 0, pos_y = 0\<rparr>, end_pos = \<lparr>pos_x = 10, pos_y = 0\<rparr>,
       gatherer_width = 0.5\<rparr>] = []
   \<and> TryCollectPoint \<lparr>pos_x = 0, pos_y = 0\<rparr> \<lparr>pos_x = 10, pos_y = 0\<rparr> \<lparr>pos_x = 5, pos_y = 1\<rparr>
       = Some \<lparr>cr_sq_distance = 1, proj_ratio = 1 / 2\<rparr>
   \<and> (0::real) \<le> 1 / 2 \<and> (1::real) / 2 \<le> 1 \<and> (1::real) \<le> (0.5 + 0.5) * (0.5 + 0.5)"
  by (simp add: FindGatherEvents_def found_events_def gatherer_events_def item_events_def
        TryCollectPoint_def Let_def)

theorem FindGatherEvents_ignores_item_width_witness:
  "FindGatherEvents
     [\<lparr>item_position = \<lparr>pos_x = 5, pos_y = 1\<rparr>, item_width = 0.5\<rparr>]
     [\<lparr>start_pos = \<lparr>pos_x = 0, pos_y = 0\<rparr>, end_pos = \<lparr>pos_x = 10, pos_y = 0\<rparr>,
       gatherer_width = 0.5\<rparr>] = []"
  using FindGatherEvents_ignores_item_width by (rule conjunct1)

section \<open>Map::MoveDog\<close>

lemma IsPositionInRoad_walkable_strip:
  "IsPositionInRoad road p \<longleftrightarrow> p \<in> walkable_strip road"
  by (auto simp: IsPositionInRoad_def GetBorders_def walkable_strip_def road_width_def
        GetMinX_def GetMaxX_def GetMinY_def GetMaxY_def Let_def)

lemma on_roads_walkable_strips: "on_roads roads p \<longleftrightarrow> p \<in> walkable_strips roads"
  by (simp add: on_roads_def walkable_strips_def IsPositionInRoad_walkable_strip)

lemma find_cur_roads_None:
  "find_cur_roads roads final_position start acc = None \<Longrightarrow>
   \<exists>road \<in> set roads. IsPositionInRoad road final_position"
  by (induction roads arbitrary: acc) (auto split: if_splits)

lemma find_cur_roads_Some:
  "find_cur_roads roads final_position start acc = Some cur_roads \<Longrightarrow>
   cur_roads = acc @ filter (\<lambda>road. IsPositionInRoad road start) roads \<and>
   (\<forall>road \<in> set roads. \<not> IsPositionInRoad road final_position)"
  by (induction roads arbitrary: acc) (fastforce split: if_splits)+

lemma slide_step_on_roads:
  "road \<in> set roads \<Longrightarrow> on_roads roads (fst st) \<Longrightarrow>
   on_roads roads (fst (slide_step speed final_position road st))"
  by (auto simp: slide_step_def on_roads_def split: option.splits)

lemma fold_slide_step_on_roads:
  "set cur_roads \<subseteq> set roads \<Longrightarrow> on_roads roads (fst st) \<Longrightarrow>
   on_roads roads (fst (fold (slide_step speed final_position) cur_roads st))"
  by (induction cur_roads arbitrary: st) (auto simp: slide_step_on_roads)

lemma MoveDog_on_roads:
  assumes "on_roads roads start"
  shows "on_roads roads (mr_position (MoveDog roads start speed delta_time))"
proof (cases "roads = []")
  case True
  then show ?thesis using assms by (simp add: MoveDog_def)
next
  case False
  obtain final_position hit
    where c: "clamp_to_bounds roads (move_target start speed delta_time) = (final_position, hit)"
    by (cases "clamp_to_bounds roads (move_target start speed delta_time)")
  show ?thesis
  proof (cases "find_cur_roads roads final_position start []")
    case None
    then have "on_roads roads final_position"
      using find_cur_roads_None by (auto simp: on_roads_def)
    then show ?thesis using False c None by (simp add: MoveDog_def)
  next
    case (Some cur_roads)
    then have "set cur_roads \<subseteq> set roads"
      using find_cur_roads_Some[OF Some] by auto
    then have "on_roads roads (slide cur_roads speed final_position start)"
      unfolding slide_def using assms by (intro fold_slide_step_on_roads) simp_all
    then show ?thesis using False c Some by (simp add: MoveDog_def Let_def)
  qed
qed

text \<open>
  Claim C2. For every map with at least one road, every start position in the union of
  the walkable strips of its roads (each road inflated by 0.4 on all sides, closed),
  every speed and every \<open>delta_time \<ge> 0\<close>, the position that \<^verbatim>\<open>MoveDog\<close> returns lies
  in the union of the walkable strips.
\<close>

theorem MoveDog_stays_in_walkable_strips:
  assumes "roads \<noteq> []"
    and "start \<in> walkable_strips roads"
    and "0 \<le> delta_time"
  shows "mr_position (MoveDog roads start speed delta_time) \<in> walkable_strips roads"
  using MoveDog_on_roads[of roads start speed delta_time] assms(2)
  by (simp add: on_roads_walkable_strips)

theorem MoveDog_stays_in_walkable_strips_witness:
  "[ex_H] \<noteq> [] \<and> \<lparr>pos_x = 10, pos_y = 0\<rparr> \<in> walkable_strips [ex_H] \<and> (0::real) \<le> 1 \<and>
   mr_position (MoveDog [ex_H] \<lparr>pos_x = 10, pos_y = 0\<rparr> \<lparr>vx = 5, vy = 0\<rparr> 1)
     \<in> walkable_strips [ex_H]"
proof -
  have h: "\<lparr>pos_x = 10, pos_y = 0\<rparr> \<in> walkable_strips [ex_H]"
    by (simp add: walkable_strips_def walkable_strip_def ex_H_def Road_HORIZONTAL_def)
  show ?thesis
    using h MoveDog_stays_in_walkable_strips
              [of "[ex_H]" "\<lparr>pos_x = 10, pos_y = 0\<rparr>" 1 "\<lparr>vx = 5, vy = 0\<rparr>"]
    by simp
qed

lemma slide_step_inv:
  assumes "slide_inv start final_position cs st"
  shows "slide_inv start final_position (cs @ road_candidate speed final_position road)
           (slide_step speed final_position road st)"
proof (cases "projected road speed final_position")
  case None
  then show ?thesis using assms by (simp add: slide_step_def road_candidate_def)
next
  case (Some p)
  show ?thesis
  proof (cases "IsPositionInRoad road p")
    case False
    then show ?thesis using assms Some by (simp add: slide_step_def road_candidate_def)
  next
    case in_road: True
    show ?thesis
    proof (cases "cs = [] \<and> st = (start, None)")
      case True
      then show ?thesis using Some in_road
        by (simp add: slide_inv_def slide_step_def road_candidate_def)
    next
      case False
      with assms have a: "fst st \<in> set cs"
        "snd st = Some (distance_sq final_position (fst st))"
        "\<forall>q\<in>set cs. distance_sq final_position (fst st) \<le> distance_sq final_position q"
        by (auto simp: slide_inv_def)
      show ?thesis
      proof (cases "distance_sq final_position p < distance_sq final_position (fst st)")
        case True
        then show ?thesis using Some in_road a
          by (auto simp: slide_inv_def slide_step_def road_candidate_def
                intro: less_imp_le order_trans)
      next
        case False
        then show ?thesis using Some in_road a
          by (auto simp: slide_inv_def slide_step_def road_candidate_def)
      qed
    qed
  qed
qed

lemma fold_slide_step_inv:
  "slide_inv start final_position cs st \<Longrightarrow>
   slide_inv start final_position (cs @ concat (map (road_candidate speed final_position) rs))
     (fold (slide_step speed final_position) rs st)"
proof (induction rs arbitrary: cs st)
  case Nil
  then show ?case by simp
next
  case (Cons road rs)
  from Cons.IH[OF slide_step_inv[OF Cons.prems, of speed road]]
  show ?case by simp
qed

lemma slide_closest:
  "(slide_candidates roads start speed final_position = [] \<longrightarrow>
      slide (filter (\<lambda>road. IsPositionInRoad road start) roads) speed final_position start = start) \<and>
   (slide_candidates roads start speed final_position \<noteq> [] \<longrightarrow>
      slide (filter (\<lambda>road. IsPositionInRoad road start) roads) speed final_position start
        \<in> set (slide_candidates roads start speed final_position) \<and>
      (\<forall>p \<in> set (slide_candidates roads start speed final_position).
         distance_sq final_position
           (slide (filter (\<lambda>road. IsPositionInRoad road start) roads) speed final_position start)
         \<le> distance_sq final_position p))"
  using fold_slide_step_inv[of start final_position "[]" "(start, None)" speed
          "filter (\<lambda>road. IsPositionInRoad road start) roads"]
  unfolding slide_inv_def slide_def slide_candidates_def
  by auto

lemma clamp_to_bounds_hit:
  "clamp_to_bounds roads target = (final_position, hit) \<Longrightarrow> final_position \<noteq> target \<Longrightarrow> hit"
  by (cases target)
     (auto simp: clamp_to_bounds_def Let_def split: prod.splits if_splits)

lemma MoveDog_off_road:
  assumes "roads \<noteq> []"
    and "clamp_to_bounds roads (move_target start speed delta_time) = (final_position, hit)"
    and "final_position \<notin> walkable_strips roads"
  shows "MoveDog roads start speed delta_time =
           \<lparr>mr_position = slide (filter (\<lambda>road. IsPositionInRoad road start) roads) speed
                             final_position start,
            hit_boundary = (hit \<or> slide (filter (\<lambda>road. IsPositionInRoad road start) roads) speed
                             final_position start \<noteq> final_position)\<rparr>"
proof -
  have "find_cur_roads roads final_position start [] \<noteq> None"
    using find_cur_roads_None[of roads final_position start "[]"] assms(3)
    by (auto simp: walkable_strips_def IsPositionInRoad_walkable_strip)
  then obtain cur_roads where c: "find_cur_roads roads final_position start [] = Some cur_roads"
    by auto
  then have "cur_roads = filter (\<lambda>road. IsPositionInRoad road start) roads"
    using find_cur_roads_Some[OF c] by simp
  then show ?thesis using assms(1,2) c
    by (auto simp: MoveDog_def Let_def Position.equality)
qed

lemma ex_bounds:
  "GetExactMovementBounds [ex_H, ex_V] =
     (\<lparr>pos_x = - (2 / 5), pos_y = - (2 / 5)\<rparr>, \<lparr>pos_x = 52 / 5, pos_y = 52 / 5\<rparr>)"
  by (simp add: GetExactMovementBounds_def ex_H_def ex_V_def Road_HORIZONTAL_def
      Road_VERTICAL_def GetMinX_def GetMaxX_def GetMinY_def GetMaxY_def GetWidth_def
      road_width_def)

lemma ex_clamp:
  "clamp_to_bounds [ex_H, ex_V] \<lparr>pos_x = 15, pos_y = 5\<rparr> = (\<lparr>pos_x = 52 / 5, pos_y = 5\<rparr>, True)"
  "clamp_to_bounds [ex_H, ex_V] \<lparr>pos_x = 5, pos_y = 5\<rparr> = (\<lparr>pos_x = 5, pos_y = 5\<rparr>, False)"
  by (simp_all add: clamp_to_bounds_def ex_bounds)

lemma ex_in_roads:
  "\<not> IsPositionInRoad ex_H \<lparr>pos_x = 52 / 5, pos_y = 5\<rparr>"
  "IsPositionInRoad ex_V \<lparr>pos_x = 52 / 5, pos_y = 5\<rparr>"
  "IsPositionInRoad ex_H \<lparr>pos_x = 10, pos_y = 0\<rparr>"
  "\<not> IsPositionInRoad ex_H \<lparr>pos_x = 5, pos_y = 5\<rparr>"
  "\<not> IsPositionInRoad ex_V \<lparr>pos_x = 5, pos_y = 5\<rparr>"
  "IsPositionInRoad ex_H \<lparr>pos_x = 5, pos_y = 0\<rparr>"
  "\<not> IsPositionInRoad ex_V \<lparr>pos_x = 5, pos_y = 0\<rparr>"
  "IsPositionInRoad ex_H \<lparr>pos_x = 5, pos_y = 2 / 5\<rparr>"
  by (simp_all add: IsPositionInRoad_def GetBorders_def
      ex_H_def ex_V_def Road_HORIZONTAL_def Road_VERTICAL_def
      GetMinX_def GetMaxX_def GetMinY_def GetMaxY_def road_width_def)

lemma ex_MoveDog:
  "MoveDog [ex_H, ex_V] \<lparr>pos_x = 10, pos_y = 0\<rparr> \<lparr>vx = 5, vy = 5\<rparr> 1 =
     \<lparr>mr_position = \<lparr>pos_x = 52 / 5, pos_y = 5\<rparr>, hit_boundary = True\<rparr>"
  by (simp add: MoveDog_def move_target_def ex_clamp ex_in_roads)

text \<open>
  Claim C3, its example. The claim says that for the roads (0,0)-(10,0) and (10,0)-(10,10)
  a dog at (10, 0) with speed (5, 5) and \<open>delta_time = 1\<close> ends at (10.4, 0) or at
  (10, 0.4). The target (15, 5) is clamped to the bounds of the map, which gives
  (10.4, 5), a point of the strip of the vertical road, and \<^verbatim>\<open>MoveDog\<close> returns it.
\<close>

theorem MoveDog_corner_example_counterexample:
  "\<not> (mr_position (MoveDog [ex_H, ex_V] \<lparr>pos_x = 10, pos_y = 0\<rparr> \<lparr>vx = 5, vy = 5\<rparr> 1)
         = \<lparr>pos_x = 10.4, pos_y = 0\<rparr> \<or>
       mr_position (MoveDog [ex_H, ex_V] \<lparr>pos_x = 10, pos_y = 0\<rparr> \<lparr>vx = 5, vy = 5\<rparr> 1)
         = \<lparr>pos_x = 10, pos_y = 0.4\<rparr>)"
  by (simp add: ex_MoveDog)

text \<open>
  Claim C3, as amended. In \<^verbatim>\<open>MoveDog\<close>, when the target clamped to the bounds of the
  map lies in no walkable strip, the result is chosen among the candidates of the roads
  whose strips contain the start, one candidate per road, kept only if it lies in the
  strip of its road: it is the start when there is no candidate, and otherwise a candidate
  with the smallest squared distance to the clamped target. \<^verbatim>\<open>hit_boundary\<close> is true
  exactly when the clamp to the map changed the target or the result differs from the
  clamped target, so it is true whenever the result differs from the target. The candidate
  of a horizontal road, when the speed has a vertical component, has the clamped target's
  x clamped to the extent of the strip and its y on the edge of the strip in the direction
  of the movement (the road's y plus 0.4 when \<open>vy > 0\<close>, minus 0.4 otherwise); the candidate
  of a vertical road, when the speed has a horizontal component, has its x on the edge of
  the strip in the direction of the movement and the clamped target's y clamped to the
  extent of the strip; the candidate of a vertical road for a purely vertical speed keeps
  the clamped target's x and clamps its y. In the example of the claim the dog ends at
  (10.4, 5) with \<^verbatim>\<open>hit_boundary\<close> true.
\<close>

theorem MoveDog_corner_slide:
  assumes "roads \<noteq> []"
    and "clamp_to_bounds roads (move_target start speed delta_time) = (final_position, hit)"
    and "final_position \<notin> walkable_strips roads"
  shows
   "(slide_candidates roads start speed final_position = [] \<longrightarrow>
       mr_position (MoveDog roads start speed delta_time) = start) \<and>
    (slide_candidates roads start speed final_position \<noteq> [] \<longrightarrow>
       mr_position (MoveDog roads start speed delta_time)
         \<in> set (slide_candidates roads start speed final_position) \<and>
       (\<forall>p \<in> set (slide_candidates roads start speed final_position).
          distance_sq final_position (mr_position (MoveDog roads start speed delta_time))
          \<le> distance_sq final_position p)) \<and>
    (hit_boundary (MoveDog roads start speed delta_time) \<longleftrightarrow>
       hit \<or> mr_position (MoveDog roads start speed delta_time) \<noteq> final_position) \<and>
    (mr_position (MoveDog roads start speed delta_time) \<noteq> move_target start speed delta_time
       \<longrightarrow> hit_boundary (MoveDog roads start speed delta_time)) \<and>
    (IsHorizontal road \<and> vy speed \<noteq> 0 \<longrightarrow>
       projected road speed final_position =
         Some \<lparr>pos_x = std_clamp (pos_x final_position) (GetMinX road - 0.4) (GetMaxX road + 0.4),
               pos_y = (if vy speed > 0 then pos_y (road_start road) + 0.4
                        else pos_y (road_start road) - 0.4)\<rparr>) \<and>
    (\<not> IsHorizontal road \<and> IsVertical road \<and> vx speed \<noteq> 0 \<longrightarrow>
       projected road speed final_position =
         Some \<lparr>pos_x = (if vx speed > 0 then pos_x (road_start road) + 0.4
                        else pos_x (road_start road) - 0.4),
               pos_y = std_clamp (pos_y final_position) (GetMinY road - 0.4) (GetMaxY road + 0.4)\<rparr>) \<and>
    (\<not> IsHorizontal road \<and> IsVertical road \<and> vx speed = 0 \<and> vy speed \<noteq> 0 \<longrightarrow>
       projected road speed final_position =
         Some \<lparr>pos_x = pos_x final_position,
               pos_y = std_clamp (pos_y final_position) (GetMinY road - 0.4) (GetMaxY road + 0.4)\<rparr>) \<and>
    MoveDog [ex_H, ex_V] \<lparr>pos_x = 10, pos_y = 0\<rparr> \<lparr>vx = 5, vy = 5\<rparr> 1 =
      \<lparr>mr_position = \<lparr>pos_x = 10.4, pos_y = 5\<rparr>, hit_boundary = True\<rparr>"
proof -
  let ?best = "slide (filter (\<lambda>road. IsPositionInRoad road start) roads) speed final_position start"
  have m: "MoveDog roads start speed delta_time =
             \<lparr>mr_position = ?best, hit_boundary = (hit \<or> ?best \<noteq> final_position)\<rparr>"
    by (rule MoveDog_off_road[OF assms])
  have c: "final_position \<noteq> move_target start speed delta_time \<Longrightarrow> hit"
    using clamp_to_bounds_hit[OF assms(2)] by simp
  have 1: "slide_candidates roads start speed final_position = [] \<longrightarrow>
       mr_position (MoveDog roads start speed delta_time) = start"
    using slide_closest[of roads start speed final_position] m by simp
  have 2: "slide_candidates roads start speed final_position \<noteq> [] \<longrightarrow>
       mr_position (MoveDog roads start speed delta_time)
         \<in> set (slide_candidates roads start speed final_position) \<and>
       (\<forall>p \<in> set (slide_candidates roads start speed final_position).
          distance_sq final_position (mr_position (MoveDog roads start speed delta_time))
          \<le> distance_sq final_position p)"
    using slide_closest[of roads start speed final_position] m by simp
  have 3: "hit_boundary (MoveDog roads start speed delta_time) \<longleftrightarrow>
       hit \<or> mr_position (MoveDog roads start speed delta_time) \<noteq> final_position"
    using m by simp
  have 4: "mr_position (MoveDog roads start speed delta_time) \<noteq> move_target start speed delta_time
       \<longrightarrow> hit_boundary (MoveDog roads start speed delta_time)"
    using m c by auto
  have 5: "IsHorizontal road \<and> vy speed \<noteq> 0 \<longrightarrow>
       projected road speed final_position =
         Some \<lparr>pos_x = std_clamp (pos_x final_position) (GetMinX road - 0.4) (GetMaxX road + 0.4),
               pos_y = (if vy speed > 0 then pos_y (road_start road) + 0.4
                        else pos_y (road_start road) - 0.4)\<rparr>"
    by (simp add: projected_def GetWidth_def road_width_def)
  have 6: "\<not> IsHorizontal road \<and> IsVertical road \<and> vx speed \<noteq> 0 \<longrightarrow>
       projected road speed final_position =
         Some \<lparr>pos_x = (if vx speed > 0 then pos_x (road_start road) + 0.4
                        else pos_x (road_start road) - 0.4),
               pos_y = std_clamp (pos_y final_position) (GetMinY road - 0.4) (GetMaxY road + 0.4)\<rparr>"
    by (simp add: projected_def GetWidth_def road_width_def)
  have 8: "\<not> IsHorizontal road \<and> IsVertical road \<and> vx speed = 0 \<and> vy speed \<noteq> 0 \<longrightarrow>
       projected road speed final_position =
         Some \<lparr>pos_x = pos_x final_position,
               pos_y = std_clamp (pos_y final_position) (GetMinY road - 0.4) (GetMaxY road + 0.4)\<rparr>"
    by (simp add: projected_def GetWidth_def road_width_def)
  have 7: "MoveDog [ex_H, ex_V] \<lparr>pos_x = 10, pos_y = 0\<rparr> \<lparr>vx = 5, vy = 5\<rparr> 1 =
      \<lparr>mr_position = \<lparr>pos_x = 10.4, pos_y = 5\<rparr>, hit_boundary = True\<rparr>"
    by (simp add: ex_MoveDog)
  show ?thesis using 1 2 3 4 5 6 7 8 by blast
qed

lemma ex_H_facts:
  "IsHorizontal ex_H" "GetMinX ex_H = 0" "GetMaxX ex_H = 10" "pos_y (road_start ex_H) = 0"
  by (simp_all add: ex_H_def Road_HORIZONTAL_def IsHorizontal_def GetMinX_def GetMaxX_def)

lemma ex_candidates:
  "slide_candidates [ex_H, ex_V] \<lparr>pos_x = 5, pos_y = 0\<rparr> \<lparr>vx = 0, vy = 5\<rparr> \<lparr>pos_x = 5, pos_y = 5\<rparr>
     = [\<lparr>pos_x = 5, pos_y = 2 / 5\<rparr>]"
  by (simp add: slide_candidates_def road_candidate_def projected_def ex_in_roads std_clamp_def
        GetWidth_def road_width_def ex_H_facts)

theorem MoveDog_corner_slide_witness:
  "[ex_H, ex_V] \<noteq> [] \<and>
   clamp_to_bounds [ex_H, ex_V] (move_target \<lparr>pos_x = 5, pos_y = 0\<rparr> \<lparr>vx = 0, vy = 5\<rparr> 1)
     = (\<lparr>pos_x = 5, pos_y = 5\<rparr>, False) \<and>
   \<lparr>pos_x = 5, pos_y = 5\<rparr> \<notin> walkable_strips [ex_H, ex_V] \<and>
   mr_position (MoveDog [ex_H, ex_V] \<lparr>pos_x = 5, pos_y = 0\<rparr> \<lparr>vx = 0, vy = 5\<rparr> 1)
     = \<lparr>pos_x = 5, pos_y = 0.4\<rparr> \<and>
   hit_boundary (MoveDog [ex_H, ex_V] \<lparr>pos_x = 5, pos_y = 0\<rparr> \<lparr>vx = 0, vy = 5\<rparr> 1)"
proof -
  have h2: "clamp_to_bounds [ex_H, ex_V] (move_target \<lparr>pos_x = 5, pos_y = 0\<rparr> \<lparr>vx = 0, vy = 5\<rparr> 1)
     = (\<lparr>pos_x = 5, pos_y = 5\<rparr>, False)"
    by (simp add: move_target_def ex_clamp)
  have h3: "\<lparr>pos_x = 5, pos_y = 5\<rparr> \<notin> walkable_strips [ex_H, ex_V]"
    using ex_in_roads by (simp add: walkable_strips_def IsPositionInRoad_walkable_strip)
  have h1: "[ex_H, ex_V] \<noteq> []" by simp
  show ?thesis
    using MoveDog_corner_slide[OF h1 h2 h3, of ex_H] h2 h3
    by (simp add: ex_candidates)
qed

section \<open>The session tick: auxiliary facts\<close>

subsection \<open>Spawn\<close>


lemma spawn_loot_simps [simp]:
  "session_players (spawn_loot env i s) = session_players s"
  "session_map (spawn_loot env i s) = session_map s"
  "next_loot_id (spawn_loot env i s) = size_t_incr (next_loot_id s)"
  "map loot_id (session_loots (spawn_loot env i s)) = map loot_id (session_loots s) @ [next_loot_id s]"
  "\<exists>l. session_loots (spawn_loot env i s) = session_loots s @ [l]"
  by (simp_all add: spawn_loot_def Let_def)

lemma fold_spawn_loot:
  "session_players (fold (spawn_loot env) [0..<n] s) = session_players s \<and>
   session_map (fold (spawn_loot env) [0..<n] s) = session_map s \<and>
   (\<exists>new. session_loots (fold (spawn_loot env) [0..<n] s) = session_loots s @ new \<and>
          length new = n)"
proof (induction n)
  case 0
  show ?case by simp
next
  case (Suc n)
  let ?s = "fold (spawn_loot env) [0..<n] s"
  from Suc obtain new where new: "session_loots ?s = session_loots s @ new" "length new = n"
    by blast
  obtain l where "session_loots (spawn_loot env n ?s) = session_loots ?s @ [l]"
    using spawn_loot_simps(5) by blast
  then have "session_loots (fold (spawn_loot env) [0..<Suc n] s) = session_loots s @ (new @ [l])"
    "length (new @ [l]) = Suc n"
    using new by simp_all
  then show ?case using Suc by (simp del: append_assoc)
qed


lemma generate_loots_facts:
  "session_players (generate_loots env dt s) = session_players s"
  "session_map (generate_loots env dt s) = session_map s"
  "\<exists>new. session_loots (generate_loots env dt s) = session_loots s @ new"
proof -
  show "session_players (generate_loots env dt s) = session_players s"
    "session_map (generate_loots env dt s) = session_map s"
    by (auto simp: generate_loots_def fold_spawn_loot split: option.splits prod.splits)
  show "\<exists>new. session_loots (generate_loots env dt s) = session_loots s @ new"
  proof (cases "loot_generator s")
    case None
    then show ?thesis by (simp add: generate_loots_def)
  next
    case (Some g)
    obtain n g' where gen: "env_generate env g dt (length (session_loots s)) (length (session_players s)) = (n, g')"
      by (cases "env_generate env g dt (length (session_loots s)) (length (session_players s))")
    have eq: "generate_loots env dt s = fold (spawn_loot env) [0..<n] (s\<lparr>loot_generator := Some g'\<rparr>)"
      using Some gen by (simp add: generate_loots_def)
    from fold_spawn_loot[of env n "s\<lparr>loot_generator := Some g'\<rparr>"]
    show ?thesis unfolding eq by auto
  qed
qed


lemma before_collisions_facts:
  "session_players (before_collisions env dt s) =
     map (\<lambda>p. move_player (session_map s) dt (save_previous_position (update_times dt p)))
       (session_players s)"
  "session_map (before_collisions env dt s) = session_map s"
  "session_loots (before_collisions env dt s) = session_loots s @ spawned env dt s"
proof -
  let ?s1 = "s\<lparr>session_players := map (update_times dt) (session_players s)\<rparr>"
  note g = generate_loots_facts[where env = env and dt = dt and s = ?s1]
  show "session_players (before_collisions env dt s) =
     map (\<lambda>p. move_player (session_map s) dt (save_previous_position (update_times dt p)))
       (session_players s)"
    using g(1,2) by (simp add: before_collisions_def Let_def)
  show "session_map (before_collisions env dt s) = session_map s"
    using g(2) by (simp add: before_collisions_def Let_def)
  from g(3) obtain new where "session_loots (generate_loots env dt ?s1) = session_loots s @ new"
    by auto
  then have "session_loots (before_collisions env dt s) = session_loots s @ new"
    by (simp add: before_collisions_def Let_def)
  then show "session_loots (before_collisions env dt s) = session_loots s @ spawned env dt s"
    by (simp add: spawned_def)
qed


subsection \<open>Events\<close>

lemma process_event_length [simp]:
  "length (fst (process_event loots e st)) = length (fst st)"
  by (cases st) (simp add: process_event_def Let_def)

lemma process_events_length [simp]:
  "length (fst (process_events loots es st)) = length (fst st)"
  unfolding process_events_def by (induction es arbitrary: st) simp_all

lemma process_events_Nil [simp]: "process_events loots [] st = st"
  by (simp add: process_events_def)

lemma process_events_Cons [simp]:
  "process_events loots (e # es) st = process_events loots es (process_event loots e st)"
  by (simp add: process_events_def)

lemma process_events_append:
  "process_events loots (es @ es') st = process_events loots es' (process_events loots es st)"
  by (simp add: process_events_def)

lemma process_event_other:
  "ev_gatherer_id e \<noteq> j \<Longrightarrow> fst (process_event loots e st) ! j = fst st ! j"
  by (cases st) (simp add: process_event_def Let_def)

lemma process_events_other:
  "\<forall>e \<in> set es. ev_gatherer_id e \<noteq> j \<Longrightarrow> fst (process_events loots es st) ! j = fst st ! j"
  by (induction es arbitrary: st) (simp_all add: process_event_other)

lemma to_int_range: "fits_int (to_int i)"
proof -
  have "0 \<le> i mod 2 ^ 32" "i mod 2 ^ 32 < 2 ^ 32" by simp_all
  then show ?thesis unfolding fits_int_def to_int_def Let_def by auto
qed

lemma to_int_fits_int: "fits_int i \<Longrightarrow> to_int i = i"
proof -
  assume a: "fits_int i"
  show ?thesis
  proof (cases "0 \<le> i")
    case True
    then have "i mod 2 ^ 32 = i" using a by (simp add: fits_int_def)
    then show ?thesis using a True by (simp add: to_int_def Let_def fits_int_def)
  next
    case False
    have "0 \<le> i + 2 ^ 32" "i + 2 ^ 32 < 2 ^ 32" using a False by (simp_all add: fits_int_def)
    then have "(i + 2 ^ 32) mod 2 ^ 32 = i + 2 ^ 32" by (rule mod_pos_pos_trivial)
    moreover have "(i + 2 ^ 32) mod 2 ^ 32 = i mod 2 ^ 32" by (rule mod_add_self2)
    ultimately have "i mod 2 ^ 32 = i + 2 ^ 32" by simp
    then show ?thesis using a False by (simp add: to_int_def Let_def fits_int_def)
  qed
qed

lemma to_int_mod: "to_int i mod 2 ^ 32 = i mod 2 ^ 32"
proof -
  have "(i mod 2 ^ 32 - 2 ^ 32) mod 2 ^ 32 = i mod (2 ^ 32 :: int)"
    by (metis minus_mod_self2 mod_mod_trivial)
  then show ?thesis by (simp add: to_int_def Let_def)
qed

lemma to_int_cong: "i mod 2 ^ 32 = j mod 2 ^ 32 \<Longrightarrow> to_int i = to_int j"
  by (simp add: to_int_def)

lemma int_plus_to_int: "int_plus a (to_int b) = to_int (a + b)" "int_plus (to_int a) b = to_int (a + b)"
  unfolding int_plus_def
  by (rule to_int_cong, metis mod_add_cong to_int_mod)+

lemma fold_loot_value:
  "fold (\<lambda>loot sum. int_plus sum (loot_value loot)) ls (to_int a) =
     to_int (a + sum_list (map loot_value ls))"
proof (induction ls arbitrary: a)
  case Nil
  show ?case by simp
next
  case (Cons l ls)
  show ?case using Cons[of "a + loot_value l"] by (simp add: int_plus_to_int add.assoc)
qed

lemma accumulate_loot_value:
  "fold (\<lambda>loot sum. int_plus sum (loot_value loot)) ls 0 = to_int (sum_list (map loot_value ls))"
  using fold_loot_value[of ls 0] by (simp add: to_int_def)


lemma process_event_OFFICE:
  assumes "ev_type e = OFFICE" "ev_gatherer_id e < length (fst st)"
  shows "bag (fst (process_event loots e st) ! ev_gatherer_id e) = []"
    and "score (fst (process_event loots e st) ! ev_gatherer_id e) =
           to_int (score (fst st ! ev_gatherer_id e) +
                   sum_list (map loot_value (bag (fst st ! ev_gatherer_id e))))"
    and "snd (process_event loots e st) = snd st"
proof -
  obtain ps c where st: "st = (ps, c)" by (cases st)
  have pe: "process_event loots e (ps, c) =
     (ps[ev_gatherer_id e := ClearBag (AddScore (to_int (sum_list (map loot_value (bag (ps ! ev_gatherer_id e))))) (ps ! ev_gatherer_id e))], c)"
    using assms(1) by (simp add: st process_event_def Let_def accumulate_loot_value)
  show "bag (fst (process_event loots e st) ! ev_gatherer_id e) = []"
    using assms(2) by (simp add: pe st ClearBag_def)
  show "score (fst (process_event loots e st) ! ev_gatherer_id e) =
           to_int (score (fst st ! ev_gatherer_id e) +
                   sum_list (map loot_value (bag (fst st ! ev_gatherer_id e))))"
    using assms(2) by (simp add: pe st ClearBag_def AddScore_def int_plus_to_int)
  show "snd (process_event loots e st) = snd st"
    by (simp add: pe st)
qed


lemma process_event_LOOT:
  assumes "ev_type e = LOOT"
  shows "process_event loots e st =
          (if pickup_succeeds loots e st
           then ((fst st)[ev_gatherer_id e :=
                    (fst st ! ev_gatherer_id e)\<lparr>bag := bag (fst st ! ev_gatherer_id e) @ [loots ! ev_item_id e]\<rparr>],
                 insert (loot_id (loots ! ev_item_id e)) (snd st))
           else st)"
proof -
  obtain ps c where st: "st = (ps, c)" by (cases st)
  show ?thesis
  proof (cases "pickup_succeeds loots e (ps, c)")
    case True
    then show ?thesis using assms
      by (simp add: st process_event_def pickup_succeeds_def Let_def AddToBag_def IsBagFull_def)
  next
    case False
    have "process_event loots e (ps, c) = (ps, c)"
      using False assms by (auto simp: process_event_def pickup_succeeds_def Let_def)
    then show ?thesis using False by (simp add: st)
  qed
qed

lemma std_sort_result_sort_key: "std_sort_result key xs (sort_key key xs)"
  by (simp add: std_sort_result_def)

lemma std_sort_result_set: "std_sort_result key xs ys \<Longrightarrow> set ys = set xs"
  by (auto simp: std_sort_result_def dest: mset_eq_setD)

lemma std_sort_sorts: "std_sort_result key xs (std_sort proposal key xs)"
  by (simp add: std_sort_def std_sort_result_sort_key)

lemma std_sort_complete:
  "std_sort_result key xs ys \<Longrightarrow> std_sort (\<lambda>xs. ys) key xs = ys"
  by (simp add: std_sort_def)

lemma std_sort_sort_key: "std_sort (sort_key key) key xs = sort_key key xs"
  by (simp add: std_sort_def)

subsection \<open>Retirement\<close>

lemma fold_retire_step:
  "fold (retire_step game) ps (active, calls) =
     (active @ filter (\<lambda>p. \<not> idle_time p \<ge> link_dog_retirement_time game) ps,
      calls @ (if link_callback_installed game
               then filter (\<lambda>p. idle_time p \<ge> link_dog_retirement_time game) ps else []))"
  by (induction ps arbitrary: active calls) (simp_all add: retire_step_def)

lemma RetireInactivePlayers_Some:
  "RetireInactivePlayers (Some game) s =
     (s\<lparr>session_players := filter (\<lambda>p. \<not> idle_time p \<ge> link_dog_retirement_time game) (session_players s)\<rparr>,
      if link_callback_installed game
      then filter (\<lambda>p. idle_time p \<ge> link_dog_retirement_time game) (session_players s) else [])"
  by (simp add: RetireInactivePlayers_def fold_retire_step)

lemma RetireInactivePlayers_None: "RetireInactivePlayers None s = (s, [])"
  by (simp add: RetireInactivePlayers_def)

lemma RetireInactivePlayers_loots:
  "session_loots (fst (RetireInactivePlayers game_ptr s)) = session_loots s"
  "next_loot_id (fst (RetireInactivePlayers game_ptr s)) = next_loot_id s"
  "set (session_players (fst (RetireInactivePlayers game_ptr s))) \<subseteq> set (session_players s)"
  by (cases game_ptr; simp add: RetireInactivePlayers_Some RetireInactivePlayers_None)+

section \<open>The bag never exceeds its capacity\<close>

lemma bag_ok_AddToBag: "bag_ok p \<Longrightarrow> bag_ok (AddToBag loot p)"
  by (simp add: bag_ok_def AddToBag_def)

lemma bag_ok_tick_steps:
  "bag_ok (update_times dt p) = bag_ok p"
  "bag_ok (save_previous_position p) = bag_ok p"
  "bag_ok (move_player m dt p) = bag_ok p"
  "bag_ok (ClearBag (AddScore delta p))"
  by (simp_all add: bag_ok_def update_times_def save_previous_position_def move_player_def
        Let_def AddPlayTime_def AddIdleTime_def ResetIdleTime_def ClearBag_def AddScore_def)

lemma list_update_all:
  "\<forall>p \<in> set ps. P p \<Longrightarrow> P v \<Longrightarrow> \<forall>p \<in> set (ps[i := v]). P p"
  using set_update_subset_insert[of ps i v] by auto

lemma process_event_bag_ok:
  assumes "\<forall>p \<in> set (fst st). bag_ok p"
  shows "\<forall>p \<in> set (fst (process_event loots e st)). bag_ok p"
proof (cases "ev_type e")
  case LOOT
  show ?thesis
  proof (cases "pickup_succeeds loots e st")
    case True
    then have "ev_gatherer_id e < length (fst st)" by (simp add: pickup_succeeds_def)
    then have "bag_ok (fst st ! ev_gatherer_id e)" using assms by simp
    then have "bag_ok (AddToBag (loots ! ev_item_id e) (fst st ! ev_gatherer_id e))"
      by (rule bag_ok_AddToBag)
    moreover have "\<not> IsBagFull (fst st ! ev_gatherer_id e)"
      using True by (simp add: pickup_succeeds_def)
    ultimately have "bag_ok ((fst st ! ev_gatherer_id e)
        \<lparr>bag := bag (fst st ! ev_gatherer_id e) @ [loots ! ev_item_id e]\<rparr>)"
      by (simp add: AddToBag_def IsBagFull_def)
    then have "\<forall>p \<in> set ((fst st)[ev_gatherer_id e := (fst st ! ev_gatherer_id e)
        \<lparr>bag := bag (fst st ! ev_gatherer_id e) @ [loots ! ev_item_id e]\<rparr>]). bag_ok p"
      using assms by (intro list_update_all) simp_all
    then show ?thesis using True LOOT
      by (simp add: process_event_LOOT)
  next
    case False
    then show ?thesis using LOOT assms by (simp add: process_event_LOOT)
  qed
next
  case OFFICE
  obtain ps c where st: "st = (ps, c)" by (cases st)
  have "\<forall>p \<in> set (ps[ev_gatherer_id e := ClearBag (AddScore
          (fold (\<lambda>loot sum. int_plus sum (loot_value loot)) (bag (ps ! ev_gatherer_id e)) 0)
          (ps ! ev_gatherer_id e))]). bag_ok p"
    using assms by (intro list_update_all) (simp_all add: st bag_ok_tick_steps)
  then show ?thesis using OFFICE
    by (simp add: st process_event_def Let_def)
qed

lemma process_events_bag_ok:
  "\<forall>p \<in> set (fst st). bag_ok p \<Longrightarrow> \<forall>p \<in> set (fst (process_events loots es st)). bag_ok p"
proof (induction es arbitrary: st)
  case Nil
  then show ?case by simp
next
  case (Cons e es)
  from Cons.IH[OF process_event_bag_ok[OF Cons.prems, of loots e]]
  show ?case by simp
qed

lemma apply_events_players:
  "session_players (apply_events es s) =
     fst (process_events (session_loots s) es (session_players s, {}))"
  by (simp add: apply_events_def split: prod.splits)

lemma before_retirement_bag_ok:
  assumes "\<forall>p \<in> set (session_players s). bag_ok p"
  shows "\<forall>p \<in> set (session_players (before_retirement env dt s)). bag_ok p"
proof -
  have "\<forall>p \<in> set (session_players (before_collisions env dt s)). bag_ok p"
    using assms by (simp add: before_collisions_facts bag_ok_tick_steps)
  then show ?thesis
    using process_events_bag_ok[of "(session_players (before_collisions env dt s), {})"]
    by (simp add: before_retirement_def HandleCollisions_def apply_events_players)
qed

lemma UpdateState_bag_ok:
  assumes "\<forall>p \<in> set (session_players s). bag_ok p"
  shows "\<forall>p \<in> set (session_players (fst (UpdateState game_ptr env dt s))). bag_ok p"
  using before_retirement_bag_ok[OF assms, of env dt]
    RetireInactivePlayers_loots(3)[of game_ptr "before_retirement env dt s"]
  by (auto simp: UpdateState_def)

lemma fold_restore_bag_loot_bag_ok:
  "bag_ok p \<Longrightarrow> bag_ok (fold restore_bag_loot vs p)"
  by (induction vs arbitrary: p)
     (simp_all add: restore_bag_loot_def bag_ok_AddToBag split: option.splits)

lemma DeserializePlayer_Some:
  assumes "DeserializePlayer json_val = Some restored"
  shows "\<exists>pid d tok capacity sc vs.
           restored = fold restore_bag_loot vs (AddScore sc (Player_new pid d tok capacity))"
proof (cases "\<not> contains json_val ''id'' \<or> \<not> contains json_val ''token'' \<or>
         \<not> contains json_val ''score'' \<or> \<not> contains json_val ''bag_capacity'' \<or>
         \<not> contains json_val ''dog''")
  case True
  then have "DeserializePlayer json_val = None"
    unfolding DeserializePlayer_def by (simp only: if_True)
  then show ?thesis using assms by simp
next
  case False
  then have "DeserializePlayer json_val = do {
        pid \<leftarrow> json_at json_val ''id'' \<bind> as_int64;
        token_str \<leftarrow> json_at json_val ''token'' \<bind> as_string;
        sc \<leftarrow> json_at json_val ''score'' \<bind> as_int64;
        capacity \<leftarrow> json_at json_val ''bag_capacity'' \<bind> as_int64;
        d \<leftarrow> json_at json_val ''dog'' \<bind> as_object \<bind> DeserializeDog;
        let player = AddScore (to_int sc)
                       (Player_new (to_size_t pid) d (DeserializeToken (c_str token_str))
                          (to_size_t capacity));
        if contains json_val ''bag'' then do {
          bag_array \<leftarrow> json_at json_val ''bag'' \<bind> as_array;
          Some (fold restore_bag_loot bag_array player)
        } else Some player
      }"
    unfolding DeserializePlayer_def by (simp only: if_False)
  with assms obtain pid token_str sc capacity d where
    r: "(if contains json_val ''bag'' then do {
          bag_array \<leftarrow> json_at json_val ''bag'' \<bind> as_array;
          Some (fold restore_bag_loot bag_array (AddScore (to_int sc)
                       (Player_new (to_size_t pid) d (DeserializeToken (c_str token_str))
                          (to_size_t capacity))))
        } else Some (AddScore (to_int sc)
                       (Player_new (to_size_t pid) d (DeserializeToken (c_str token_str))
                          (to_size_t capacity)))) = Some restored"
    by (auto simp: bind_eq_Some_conv Let_def)
  show ?thesis
  proof (cases "contains json_val ''bag''")
    case True
    with r obtain vs where "restored = fold restore_bag_loot vs (AddScore (to_int sc)
                       (Player_new (to_size_t pid) d (DeserializeToken (c_str token_str))
                          (to_size_t capacity)))"
      by (auto simp: bind_eq_Some_conv)
    then show ?thesis by blast
  next
    case False
    with r have "restored = fold restore_bag_loot [] (AddScore (to_int sc)
                       (Player_new (to_size_t pid) d (DeserializeToken (c_str token_str))
                          (to_size_t capacity)))"
      by simp
    then show ?thesis by blast
  qed
qed

lemma DeserializePlayer_bag_ok:
  assumes "DeserializePlayer json_val = Some restored"
  shows "bag_ok restored"
proof -
  have new: "bag_ok (AddScore sc (Player_new pid d tok capacity))" for sc pid d tok capacity
    by (simp add: bag_ok_def AddScore_def Player_new_def)
  from DeserializePlayer_Some[OF assms] show ?thesis
    using new fold_restore_bag_loot_bag_ok by blast
qed

lemma restore_player_bag_ok:
  "\<forall>p \<in> set (session_players session). bag_ok p \<Longrightarrow>
   \<forall>p \<in> set (session_players (restore_player v session)). bag_ok p"
  by (auto simp: restore_player_def AddPlayer_def bind_eq_Some_conv
        dest: DeserializePlayer_bag_ok split: option.splits)

text \<open>
  Claim C6. For every player and after every operation, the number of items in the bag
  does not exceed \<^verbatim>\<open>bag_capacity\<close>: a newly constructed player has an empty bag,
  \<^verbatim>\<open>AddToBag\<close> keeps the bound, a tick of the session keeps the bound for every player
  of the session, a player returned by \<^verbatim>\<open>DeserializePlayer\<close> satisfies the bound, and
  restoring a player into a session keeps the bound for every player of the session.
\<close>

theorem bag_never_exceeds_capacity:
  "length (bag (Player_new pid d tok capacity)) \<le> bag_capacity (Player_new pid d tok capacity) \<and>
   (length (bag p) \<le> bag_capacity p \<longrightarrow>
      length (bag (AddToBag loot p)) \<le> bag_capacity (AddToBag loot p)) \<and>
   ((\<forall>q \<in> set (session_players s). length (bag q) \<le> bag_capacity q) \<longrightarrow>
      (\<forall>q \<in> set (session_players (fst (UpdateState game_ptr env delta_time s))).
         length (bag q) \<le> bag_capacity q)) \<and>
   (DeserializePlayer json_val = Some restored \<longrightarrow>
      length (bag restored) \<le> bag_capacity restored) \<and>
   ((\<forall>q \<in> set (session_players s). length (bag q) \<le> bag_capacity q) \<longrightarrow>
      (\<forall>q \<in> set (session_players (restore_player player_val s)).
         length (bag q) \<le> bag_capacity q))"
proof -
  have 1: "length (bag (Player_new pid d tok capacity)) \<le> bag_capacity (Player_new pid d tok capacity)"
    by (simp add: Player_new_def)
  have 2: "length (bag p) \<le> bag_capacity p \<longrightarrow>
      length (bag (AddToBag loot p)) \<le> bag_capacity (AddToBag loot p)"
    using bag_ok_AddToBag[of p loot] by (simp add: bag_ok_def)
  have 3: "(\<forall>q \<in> set (session_players s). length (bag q) \<le> bag_capacity q) \<longrightarrow>
      (\<forall>q \<in> set (session_players (fst (UpdateState game_ptr env delta_time s))).
         length (bag q) \<le> bag_capacity q)"
    using UpdateState_bag_ok[of s game_ptr env delta_time] by (simp add: bag_ok_def)
  have 4: "DeserializePlayer json_val = Some restored \<longrightarrow>
      length (bag restored) \<le> bag_capacity restored"
    using DeserializePlayer_bag_ok[of json_val restored] by (simp add: bag_ok_def)
  have 5: "(\<forall>q \<in> set (session_players s). length (bag q) \<le> bag_capacity q) \<longrightarrow>
      (\<forall>q \<in> set (session_players (restore_player player_val s)).
         length (bag q) \<le> bag_capacity q)"
    using restore_player_bag_ok[of s player_val] by (simp add: bag_ok_def)
  show ?thesis using 1 2 3 4 5 by blast
qed

theorem bag_never_exceeds_capacity_witness:
  "list_all (\<lambda>q. length (bag q) \<le> bag_capacity q) (session_players ex_session) \<and>
   list_all (\<lambda>q. length (bag q) \<le> bag_capacity q)
     (session_players (fst (UpdateState (Some ex_link) ex_env 1 ex_session))) \<and>
   map (\<lambda>q. length (bag q)) (session_players (fst (UpdateState (Some ex_link) ex_env 1 ex_session)))
     = [2]"
proof -
  have h: "list_all (\<lambda>q. length (bag q) \<le> bag_capacity q) (session_players ex_session)"
    by code_simp
  have e: "map (\<lambda>q. length (bag q))
             (session_players (fst (UpdateState (Some ex_link) ex_env 1 ex_session))) = [2]"
    by code_simp
  have t: "(\<forall>q \<in> set (session_players ex_session). length (bag q) \<le> bag_capacity q) \<longrightarrow>
      (\<forall>q \<in> set (session_players (fst (UpdateState (Some ex_link) ex_env 1 ex_session))).
         length (bag q) \<le> bag_capacity q)"
    by (rule bag_never_exceeds_capacity
          [where s = ex_session and game_ptr = "Some ex_link" and env = ex_env
             and delta_time = 1, THEN conjunct2, THEN conjunct2, THEN conjunct1])
  from h t have "list_all (\<lambda>q. length (bag q) \<le> bag_capacity q)
     (session_players (fst (UpdateState (Some ex_link) ex_env 1 ex_session)))"
    unfolding list_all_iff by (rule rev_mp)
  with h e show ?thesis by (intro conjI)
qed

section \<open>What collision processing leaves alone\<close>

lemma list_update_map_same:
  assumes "f v = f (ps ! i)"
  shows "map f (ps[i := v]) = map f ps"
proof (cases "i < length ps")
  case True
  then show ?thesis using assms by (auto simp: list_eq_iff_nth_eq nth_list_update)
next
  case False
  then show ?thesis by (simp add: list_update_beyond)
qed

lemma process_event_map:
  assumes "\<And>l p. f (AddToBag l p) = f p" and "\<And>d p. f (ClearBag (AddScore d p)) = f p"
  shows "map f (fst (process_event loots e st)) = map f (fst st)"
proof -
  obtain ps c where st: "st = (ps, c)" by (cases st)
  show ?thesis
    by (simp add: st process_event_def Let_def list_update_map_same assms)
qed

lemma process_events_map:
  assumes "\<And>l p. f (AddToBag l p) = f p" and "\<And>d p. f (ClearBag (AddScore d p)) = f p"
  shows "map f (fst (process_events loots es st)) = map f (fst st)"
proof (induction es arbitrary: st)
  case Nil
  show ?case by simp
next
  case (Cons e es)
  show ?case using Cons.IH[of "process_event loots e st"] process_event_map[of f loots e st] assms
    by simp
qed

lemma bag_ops_keep:
  "player_dog (AddToBag l p) = player_dog p" "player_dog (ClearBag (AddScore d p)) = player_dog p"
  "play_time (AddToBag l p) = play_time p" "play_time (ClearBag (AddScore d p)) = play_time p"
  "idle_time (AddToBag l p) = idle_time p" "idle_time (ClearBag (AddScore d p)) = idle_time p"
  by (simp_all add: AddToBag_def ClearBag_def AddScore_def)

lemma HandleCollisions_keeps:
  "map player_dog (session_players (HandleCollisions env s)) = map player_dog (session_players s)"
  "map play_time (session_players (HandleCollisions env s)) = map play_time (session_players s)"
  "map idle_time (session_players (HandleCollisions env s)) = map idle_time (session_players s)"
  by (simp_all add: HandleCollisions_def apply_events_players process_events_map bag_ops_keep)

lemma tick_steps_keep:
  "play_time (move_player m dt (save_previous_position (update_times dt p))) = play_time p + dt"
  "dog_name (player_dog (move_player m dt (save_previous_position (update_times dt p))))
     = dog_name (player_dog p)"
  by (simp_all add: move_player_def save_previous_position_def update_times_def Let_def
        AddPlayTime_def AddIdleTime_def ResetIdleTime_def Stop_def)

lemma before_retirement_play_time:
  "map play_time (session_players (before_retirement env dt s)) =
     map (\<lambda>p. play_time p + dt) (session_players s)"
  by (simp add: before_retirement_def HandleCollisions_keeps before_collisions_facts
        tick_steps_keep)

lemma before_retirement_dog_name:
  "map (\<lambda>p. dog_name (player_dog p)) (session_players (before_retirement env dt s)) =
     map (\<lambda>p. dog_name (player_dog p)) (session_players s)"
proof -
  have "map (\<lambda>p. dog_name (player_dog p)) (session_players (before_retirement env dt s)) =
        map dog_name (map player_dog (session_players (before_retirement env dt s)))"
    by simp
  also have "\<dots> = map dog_name (map player_dog (session_players (before_collisions env dt s)))"
    by (simp only: before_retirement_def HandleCollisions_keeps)
  also have "\<dots> = map (\<lambda>p. dog_name (player_dog p)) (session_players s)"
    by (simp add: before_collisions_facts tick_steps_keep)
  finally show ?thesis .
qed

text \<open>
  Claim C8. On each tick of a session of a game with a retired-player callback, after the
  collisions are processed, the players whose \<^verbatim>\<open>idle_time\<close> is at least the game's dog
  retirement time are removed from the session and the callback is called once for each
  of them, in their order, with the player as it is then (its name, its score and its
  play time, which includes this tick); the other players are kept in their order.
\<close>

theorem retirement_after_collisions:
  assumes "retired_player_callback game"
  shows "session_players (fst (UpdateState (Some (game_link game)) env delta_time s)) =
           filter (\<lambda>p. \<not> idle_time p \<ge> dog_retirement_time game)
             (session_players (before_retirement env delta_time s)) \<and>
         snd (UpdateState (Some (game_link game)) env delta_time s) =
           filter (\<lambda>p. idle_time p \<ge> dog_retirement_time game)
             (session_players (before_retirement env delta_time s)) \<and>
         map play_time (session_players (before_retirement env delta_time s)) =
           map (\<lambda>p. play_time p + delta_time) (session_players s) \<and>
         map (\<lambda>p. dog_name (player_dog p)) (session_players (before_retirement env delta_time s)) =
           map (\<lambda>p. dog_name (player_dog p)) (session_players s)"
  using assms
  by (simp add: UpdateState_def RetireInactivePlayers_Some game_link_def
        before_retirement_play_time before_retirement_dog_name)

theorem retirement_after_collisions_witness:
  "retired_player_callback ex_game \<and>
   map player_id (session_players (fst (UpdateState (Some (game_link ex_game)) ex_env 1 ex_session))) = [0] \<and>
   map player_id (snd (UpdateState (Some (game_link ex_game)) ex_env 1 ex_session)) = [1] \<and>
   map play_time (snd (UpdateState (Some (game_link ex_game)) ex_env 1 ex_session)) = [71]"
proof -
  have h: "retired_player_callback ex_game" by (simp add: ex_game_def)
  note t = retirement_after_collisions[OF h, of ex_env 1 ex_session]
  have e1: "map player_id (filter (\<lambda>p. \<not> idle_time p \<ge> dog_retirement_time ex_game)
             (session_players (before_retirement ex_env 1 ex_session))) = [0]"
    by code_simp
  have e2: "map player_id (filter (\<lambda>p. idle_time p \<ge> dog_retirement_time ex_game)
             (session_players (before_retirement ex_env 1 ex_session))) = [1]"
    by code_simp
  have e3: "map play_time (filter (\<lambda>p. idle_time p \<ge> dog_retirement_time ex_game)
             (session_players (before_retirement ex_env 1 ex_session))) = [71]"
    by code_simp
  show ?thesis
    using h e1 e2 e3 by (simp only: t[THEN conjunct1] t[THEN conjunct2, THEN conjunct1] simp_thms)
qed

section \<open>A dog that stands still\<close>

lemma stationary_player_step:
  assumes "dog_speed (player_dog p) = \<lparr>vx = 0, vy = 0\<rparr>"
  shows "dog_position (player_dog (move_player m dt (save_previous_position (update_times dt p))))
           = dog_position (player_dog p)"
    and "previous_position (player_dog (move_player m dt (save_previous_position (update_times dt p))))
           = dog_position (player_dog p)"
    and "bag (move_player m dt (save_previous_position (update_times dt p))) = bag p"
    and "score (move_player m dt (save_previous_position (update_times dt p))) = score p"
  using assms
  by (simp_all add: move_player_def save_previous_position_def update_times_def Let_def
        AddPlayTime_def AddIdleTime_def ResetIdleTime_def IsMoving_def EPS_def)

lemma all_events_gatherer:
  assumes "e \<in> set (all_events s)"
  shows "ev_gatherer_id e < length (session_players s) \<and>
         previous_position (player_dog (session_players s ! ev_gatherer_id e)) \<noteq>
           dog_position (player_dog (session_players s ! ev_gatherer_id e))"
proof -
  from assms obtain ge items where
    ge: "ge \<in> set (found_events items (player_gatherers (session_players s)))"
    and e: "ev_gatherer_id e = ge_gatherer_id ge"
    by (auto simp: all_events_def Let_def FindGatherEvents_set to_game_event_def)
  from found_events_index[OF ge] show ?thesis
    by (auto simp: e player_gatherers_def)
qed

text \<open>
  Claim C10. Whatever arrangement \<^verbatim>\<open>std::sort\<close> gives to the events of the tick, a
  player whose dog has speed exactly (0, 0) at the start of a tick has, after the
  collisions of the tick are processed, the same position, the same bag and the same
  score; no pickup or delivery event of the tick belongs to it; and unless the tick
  retires it (a game is attached and its idle time has reached the retirement time) it
  is still a player of the session after the tick.
\<close>

theorem stationary_player_unchanged:
  assumes "i < length (session_players s)"
    and "dog_speed (player_dog (session_players s ! i)) = \<lparr>vx = 0, vy = 0\<rparr>"
  shows "dog_position (player_dog (session_players (before_retirement env delta_time s) ! i)) =
           dog_position (player_dog (session_players s ! i)) \<and>
         bag (session_players (before_retirement env delta_time s) ! i) =
           bag (session_players s ! i) \<and>
         score (session_players (before_retirement env delta_time s) ! i) =
           score (session_players s ! i) \<and>
         (\<forall>e \<in> set (all_events (before_collisions env delta_time s)). ev_gatherer_id e \<noteq> i) \<and>
         (\<not> (\<exists>game. game_ptr = Some game \<and>
               idle_time (session_players (before_retirement env delta_time s) ! i)
                 \<ge> link_dog_retirement_time game) \<longrightarrow>
            session_players (before_retirement env delta_time s) ! i
              \<in> set (session_players (fst (UpdateState game_ptr env delta_time s))))"
proof -
  let ?s4 = "before_collisions env delta_time s"
  let ?s5 = "before_retirement env delta_time s"
  let ?p = "session_players s ! i"
  have p4: "session_players ?s4 ! i =
      move_player (session_map s) delta_time (save_previous_position (update_times delta_time ?p))"
    using assms(1) by (simp add: before_collisions_facts)
  have len4: "length (session_players ?s4) = length (session_players s)"
    by (simp add: before_collisions_facts)
  have still: "previous_position (player_dog (session_players ?s4 ! i)) =
      dog_position (player_dog (session_players ?s4 ! i))"
    using stationary_player_step(1,2)[OF assms(2)] by (simp add: p4)
  have no_ev: "\<forall>e \<in> set (all_events ?s4). ev_gatherer_id e \<noteq> i"
    using all_events_gatherer[of _ ?s4] still by blast
  then have no_ev': "\<forall>e \<in> set (std_sort (env_sort env) ev_time (all_events ?s4)). ev_gatherer_id e \<noteq> i"
    using std_sort_result_set[OF std_sort_sorts[where key = ev_time and xs = "all_events ?s4"
          and proposal = "env_sort env"]] by simp
  have p5: "session_players ?s5 ! i = session_players ?s4 ! i"
    using process_events_other[OF no_ev', of "session_loots ?s4" "(session_players ?s4, {})"]
    by (simp add: before_retirement_def HandleCollisions_def apply_events_players)
  have len5: "length (session_players ?s5) = length (session_players s)"
    by (simp add: before_retirement_def HandleCollisions_def apply_events_players len4)
  have mem: "session_players ?s5 ! i \<in> set (session_players ?s5)"
    using assms(1) len5 by simp
  have kept: "\<not> (\<exists>game. game_ptr = Some game \<and>
               idle_time (session_players ?s5 ! i) \<ge> link_dog_retirement_time game) \<longrightarrow>
            session_players ?s5 ! i \<in> set (session_players (fst (UpdateState game_ptr env delta_time s)))"
  proof (cases game_ptr)
    case None
    then show ?thesis using mem by (simp add: UpdateState_def RetireInactivePlayers_None)
  next
    case (Some game)
    then show ?thesis using mem by (simp add: UpdateState_def RetireInactivePlayers_Some)
  qed
  show ?thesis
    using stationary_player_step(1,3,4)[OF assms(2), of "session_map s" delta_time] no_ev kept
    by (simp only: p5 p4 simp_thms)
qed

theorem stationary_player_unchanged_witness:
  "(1::nat) < length (session_players ex_session) \<and>
   dog_speed (player_dog (session_players ex_session ! 1)) = \<lparr>vx = 0, vy = 0\<rparr> \<and>
   dog_position (player_dog (session_players (before_retirement ex_env 1 ex_session) ! 1)) =
     \<lparr>pos_x = 3, pos_y = 5\<rparr> \<and>
   score (session_players (before_retirement ex_env 1 ex_session) ! 1) = 2 \<and>
   session_players (before_retirement ex_env 1 ex_session) ! 1
     \<in> set (session_players (fst (UpdateState (Some ex_link_late) ex_env 1 ex_session)))"
proof -
  have h1: "(1::nat) < length (session_players ex_session)" by code_simp
  have h2: "dog_speed (player_dog (session_players ex_session ! 1)) = \<lparr>vx = 0, vy = 0\<rparr>"
    by code_simp
  note t = stationary_player_unchanged[OF h1 h2, where game_ptr = "Some ex_link_late"
      and env = ex_env and delta_time = 1]
  have e1: "dog_position (player_dog (session_players ex_session ! 1)) = \<lparr>pos_x = 3, pos_y = 5\<rparr>"
    by code_simp
  have e2: "score (session_players ex_session ! 1) = 2" by code_simp
  have e3: "\<not> (\<exists>game. Some ex_link_late = Some game \<and>
               idle_time (session_players (before_retirement ex_env 1 ex_session) ! 1)
                 \<ge> link_dog_retirement_time game)"
  proof -
    have "idle_time (session_players (before_retirement ex_env 1 ex_session) ! 1)
            < link_dog_retirement_time ex_link_late"
      by code_simp
    then show ?thesis by auto
  qed
  from t e3 have m: "session_players (before_retirement ex_env 1 ex_session) ! 1
     \<in> set (session_players (fst (UpdateState (Some ex_link_late) ex_env 1 ex_session)))"
    by blast
  from t have p: "dog_position (player_dog (session_players (before_retirement ex_env 1 ex_session) ! 1)) =
      dog_position (player_dog (session_players ex_session ! 1))"
    and sc: "score (session_players (before_retirement ex_env 1 ex_session) ! 1) =
      score (session_players ex_session ! 1)"
    by blast+
  show ?thesis using h1 h2 m p sc e1 e2 by (simp only: simp_thms)
qed

section \<open>Events are processed in the order of their time\<close>

lemma sorted_earlier_first:
  assumes "sorted (map key events)" and "d \<in> set events" and "p \<in> set events"
    and "key d < (key p :: real)"
  shows "\<exists>before between after. events = before @ d # between @ p # after"
proof -
  from assms(2) obtain before rest where ev: "events = before @ d # rest"
    by (auto dest: split_list)
  have "p \<notin> set before"
  proof
    assume "p \<in> set before"
    then have "key p \<le> key d" using assms(1) by (auto simp: ev sorted_append)
    then show False using assms(4) by simp
  qed
  moreover have "p \<noteq> d" using assms(4) by auto
  ultimately have "p \<in> set rest" using assms(3) by (simp add: ev)
  then obtain between after where "rest = between @ p # after"
    by (auto dest: split_list)
  then show ?thesis using ev by blast
qed

text \<open>
  Claim C4. \<^verbatim>\<open>HandleCollisions\<close> merges the pickup and delivery events of the two
  detector runs and processes them in nondecreasing order of their time, whatever way
  \<^verbatim>\<open>std::sort\<close> arranges events of the same time. So when a player has a delivery at an
  earlier time than a pickup in the tick, the delivery comes first in the processed
  list: processing it adds the sum of the values of the items then in the bag to the
  score, in the 32-bit arithmetic of \<^verbatim>\<open>int\<close> (which is the sum itself where that fits
  an \<^verbatim>\<open>int\<close>), and empties the bag; the pickup is processed later, on the state that the
  delivery and the events between them have left, where it appends the loot to the bag
  of that state if the loot is not yet collected and the bag is not full; and the
  players after \<^verbatim>\<open>HandleCollisions\<close> are those that the events after the pickup leave.
\<close>

theorem delivery_before_pickup:
  assumes "d \<in> set (all_events s)" and "ev_type d = OFFICE"
    and "p \<in> set (all_events s)" and "ev_type p = LOOT"
    and "ev_gatherer_id p = ev_gatherer_id d"
    and "ev_time d < ev_time p"
  shows "mset (std_sort (env_sort env) ev_time (all_events s)) = mset (all_events s) \<and>
    sorted (map ev_time (std_sort (env_sort env) ev_time (all_events s))) \<and>
    (\<exists>before between after.
       std_sort (env_sort env) ev_time (all_events s) = before @ d # between @ p # after \<and>
       (let st1 = process_events (session_loots s) before (session_players s, {});
            st2 = process_event (session_loots s) d st1;
            st3 = process_events (session_loots s) between st2;
            st4 = process_event (session_loots s) p st3;
            g = ev_gatherer_id d
        in bag (fst st2 ! g) = [] \<and>
           score (fst st2 ! g) =
             to_int (score (fst st1 ! g) + sum_list (map loot_value (bag (fst st1 ! g)))) \<and>
           (fits_int (score (fst st1 ! g) + sum_list (map loot_value (bag (fst st1 ! g)))) \<longrightarrow>
              score (fst st2 ! g) =
                score (fst st1 ! g) + sum_list (map loot_value (bag (fst st1 ! g)))) \<and>
           fst st4 ! g =
             (if pickup_succeeds (session_loots s) p st3
              then (fst st3 ! g)\<lparr>bag := bag (fst st3 ! g) @ [session_loots s ! ev_item_id p]\<rparr>
              else fst st3 ! g) \<and>
           session_players (HandleCollisions env s) =
             fst (process_events (session_loots s) after st4)))"
proof -
  let ?loots = "session_loots s"
  let ?g = "ev_gatherer_id d"
  let ?events = "std_sort (env_sort env) ev_time (all_events s)"
  have srt: "sorted (map ev_time ?events)" and ms: "mset ?events = mset (all_events s)"
    using std_sort_sorts[where key = ev_time and xs = "all_events s" and proposal = "env_sort env"]
    by (simp_all add: std_sort_result_def)
  have mem: "d \<in> set ?events" "p \<in> set ?events"
    using assms(1,3) mset_eq_setD[OF ms] by simp_all
  from sorted_earlier_first[OF srt mem assms(6)]
  obtain before between after where ev: "?events = before @ d # between @ p # after"
    by blast
  define st1 where "st1 = process_events ?loots before (session_players s, {})"
  define st2 where "st2 = process_event ?loots d st1"
  define st3 where "st3 = process_events ?loots between st2"
  define st4 where "st4 = process_event ?loots p st3"
  have g: "?g < length (session_players s)"
    using all_events_gatherer[OF assms(1)] by blast
  then have g1: "?g < length (fst st1)" by (simp add: st1_def)
  then have g3: "?g < length (fst st3)" by (simp add: st3_def st2_def)
  have a: "bag (fst st2 ! ?g) = []"
    and b: "score (fst st2 ! ?g) =
              to_int (score (fst st1 ! ?g) + sum_list (map loot_value (bag (fst st1 ! ?g))))"
    unfolding st2_def using process_event_OFFICE(1,2)[OF assms(2) g1] by simp_all
  have b': "fits_int (score (fst st1 ! ?g) + sum_list (map loot_value (bag (fst st1 ! ?g)))) \<longrightarrow>
              score (fst st2 ! ?g) =
                score (fst st1 ! ?g) + sum_list (map loot_value (bag (fst st1 ! ?g)))"
    using b by (simp add: to_int_fits_int)
  have c: "fst st4 ! ?g =
             (if pickup_succeeds ?loots p st3
              then (fst st3 ! ?g)\<lparr>bag := bag (fst st3 ! ?g) @ [?loots ! ev_item_id p]\<rparr>
              else fst st3 ! ?g)"
    unfolding st4_def using g3 by (simp add: process_event_LOOT[OF assms(4)] assms(5))
  have e: "session_players (HandleCollisions env s) = fst (process_events ?loots after st4)"
    by (simp add: HandleCollisions_def apply_events_players ev process_events_append
          st1_def st2_def st3_def st4_def)
  have body: "?events = before @ d # between @ p # after \<and>
       (let st1 = process_events ?loots before (session_players s, {});
            st2 = process_event ?loots d st1;
            st3 = process_events ?loots between st2;
            st4 = process_event ?loots p st3;
            g = ev_gatherer_id d
        in bag (fst st2 ! g) = [] \<and>
           score (fst st2 ! g) =
             to_int (score (fst st1 ! g) + sum_list (map loot_value (bag (fst st1 ! g)))) \<and>
           (fits_int (score (fst st1 ! g) + sum_list (map loot_value (bag (fst st1 ! g)))) \<longrightarrow>
              score (fst st2 ! g) =
                score (fst st1 ! g) + sum_list (map loot_value (bag (fst st1 ! g)))) \<and>
           fst st4 ! g =
             (if pickup_succeeds ?loots p st3
              then (fst st3 ! g)\<lparr>bag := bag (fst st3 ! g) @ [?loots ! ev_item_id p]\<rparr>
              else fst st3 ! g) \<and>
           session_players (HandleCollisions env s) =
             fst (process_events ?loots after st4))"
    using ev a b b' c e unfolding Let_def st1_def st2_def st3_def st4_def by (intro conjI)
  show ?thesis
    apply (intro conjI)
      apply (rule ms)
     apply (rule srt)
    apply (rule exI[of _ before], rule exI[of _ between], rule exI[of _ after])
    apply (rule body)
    done
qed

lemma HandleCollisions_ex_env:
  "HandleCollisions ex_env s = apply_events (sort_key ev_time (all_events s)) s"
  by (simp add: HandleCollisions_def ex_env_def std_sort_sort_key)

lemma ex_all_events:
  "all_events (before_collisions ex_env 1 ex_session) =
     [\<lparr>ev_time = 1 / 2, ev_type = LOOT, ev_gatherer_id = 0, ev_item_id = 0\<rparr>,
      \<lparr>ev_time = 4 / 5, ev_type = LOOT, ev_gatherer_id = 0, ev_item_id = 1\<rparr>,
      \<lparr>ev_time = 1 / 5, ev_type = OFFICE, ev_gatherer_id = 0, ev_item_id = 0\<rparr>]"
  by code_simp

theorem delivery_before_pickup_witness:
  "\<lparr>ev_time = 1 / 5, ev_type = OFFICE, ev_gatherer_id = 0, ev_item_id = 0\<rparr>
     \<in> set (all_events (before_collisions ex_env 1 ex_session)) \<and>
   \<lparr>ev_time = 1 / 2, ev_type = LOOT, ev_gatherer_id = 0, ev_item_id = 0\<rparr>
     \<in> set (all_events (before_collisions ex_env 1 ex_session)) \<and>
   sorted (map ev_time
     (std_sort (env_sort ex_env) ev_time (all_events (before_collisions ex_env 1 ex_session)))) \<and>
   fits_int (score (session_players (before_collisions ex_env 1 ex_session) ! 0) +
     sum_list (map loot_value (bag (session_players (before_collisions ex_env 1 ex_session) ! 0)))) \<and>
   map score (session_players (HandleCollisions ex_env (before_collisions ex_env 1 ex_session))) = [5, 2] \<and>
   map (\<lambda>q. map loot_id (bag q))
     (session_players (HandleCollisions ex_env (before_collisions ex_env 1 ex_session))) = [[7, 8], []]"
proof -
  let ?s = "before_collisions ex_env 1 ex_session"
  let ?d = "\<lparr>ev_time = 1 / 5, ev_type = OFFICE, ev_gatherer_id = 0, ev_item_id = 0\<rparr>"
  let ?p = "\<lparr>ev_time = 1 / 2, ev_type = LOOT, ev_gatherer_id = 0, ev_item_id = 0\<rparr>"
  have h1: "?d \<in> set (all_events ?s)" by (simp only: ex_all_events) simp
  have h3: "?p \<in> set (all_events ?s)" by (simp only: ex_all_events) simp
  have h2: "ev_type ?d = OFFICE" by simp
  have h4: "ev_type ?p = LOOT" by simp
  have h5: "ev_gatherer_id ?p = ev_gatherer_id ?d" by simp
  have h6: "ev_time ?d < ev_time ?p" by simp
  note t = delivery_before_pickup[OF h1 h2 h3 h4 h5 h6, of ex_env]
  have f: "fits_int (score (session_players ?s ! 0) +
     sum_list (map loot_value (bag (session_players ?s ! 0))))"
    by code_simp
  have e1: "map score (session_players (HandleCollisions ex_env ?s)) = [5, 2]"
    unfolding HandleCollisions_ex_env by code_simp
  have e2: "map (\<lambda>q. map loot_id (bag q)) (session_players (HandleCollisions ex_env ?s)) = [[7, 8], []]"
    unfolding HandleCollisions_ex_env by code_simp
  show ?thesis
    by (intro conjI h1 h3 t[THEN conjunct2, THEN conjunct1] f e1 e2)
qed


section \<open>Every loot is picked up at most once\<close>















subsection \<open>The bags\<close>



lemma bag_ids_Nil [simp]: "bag_ids [] = []"
  by (simp add: bag_ids_def)


















section \<open>The loot generator\<close>

lemma pow_ratio_range:
  assumes "0 \<le> b" "b \<le> 1" "0 \<le> e"
  shows "0 \<le> pow_ratio b e \<and> pow_ratio b e \<le> 1"
proof (cases "e = 0")
  case True
  then show ?thesis by (simp add: pow_ratio_def)
next
  case False
  then have "b powr e \<le> 1" using assms by (simp add: powr_le1)
  then show ?thesis using False by (simp add: pow_ratio_def)
qed

lemma Generate_unclamped:
  assumes "0 \<le> base_probability g" "base_probability g \<le> 1" "0 \<le> r" "r \<le> 1"
    and "0 \<le> time_without_loot g + time_delta" "0 < base_interval g"
    and "loot_count < looter_count"
  shows "\<lfloor>of_int (int looter_count - int loot_count) *
            (1 - pow_ratio (1 - base_probability g)
                   (min 1 ((time_without_loot g + time_delta) / base_interval g))) * r + 0.5\<rfloor>
         \<le> int looter_count - int loot_count"
proof -
  let ?sh = "int looter_count - int loot_count"
  let ?p = "1 - pow_ratio (1 - base_probability g)
                   (min 1 ((time_without_loot g + time_delta) / base_interval g))"
  have "0 \<le> min 1 ((time_without_loot g + time_delta) / base_interval g)"
    using assms(5,6) by simp
  then have p: "0 \<le> ?p \<and> ?p \<le> 1"
    using pow_ratio_range[of "1 - base_probability g"
            "min 1 ((time_without_loot g + time_delta) / base_interval g)"] assms(1,2)
    by simp
  have "?p * r \<le> 1" using p assms(3,4) by (simp add: mult_le_one)
  moreover have "0 \<le> (of_int ?sh :: real)" using assms(7) by simp
  ultimately have "of_int ?sh * (?p * r) \<le> (of_int ?sh :: real)"
    by (simp add: mult_left_le)
  then have "of_int ?sh * ?p * r + 0.5 < (of_int (?sh + 1) :: real)"
    by (simp add: mult.assoc)
  then have "\<lfloor>of_int ?sh * ?p * r + 0.5\<rfloor> < ?sh + 1"
    by (simp only: floor_less_iff)
  then show ?thesis by simp
qed

text \<open>
  Claim C7. For every elapsed time, loot count and looter count (and every state of the
  generator and value of the random source), \<open>Generate\<close> returns at most
  \<open>max 0 (looter_count - loot_count)\<close>, and 0 when \<open>loot_count \<ge> looter_count\<close>.
\<close>

theorem Generate_bounded_by_shortage:
  "int (fst (Generate g time_delta loot_count looter_count r))
     \<le> max 0 (int looter_count - int loot_count) \<and>
   (loot_count \<ge> looter_count \<longrightarrow> fst (Generate g time_delta loot_count looter_count r) = 0)"
  by (auto simp: Generate_def Let_def)

theorem Generate_bounded_by_shortage_witness:
  "(2::nat) \<le> 3 \<and> fst (Generate ex_generator 1 3 2 0.5) = 0 \<and>
   int (fst (Generate ex_generator 1 0 10 0.5)) \<le> 10"
proof -
  have h: "(2::nat) \<le> 3" by simp
  have a: "fst (Generate ex_generator 1 3 2 0.5) = 0"
    using Generate_bounded_by_shortage[of ex_generator 1 3 2 "0.5", THEN conjunct2] h by (rule mp)
  have b: "int (fst (Generate ex_generator 1 0 10 0.5)) \<le> 10"
    using Generate_bounded_by_shortage[of ex_generator 1 0 10 "0.5", THEN conjunct1] by simp
  show ?thesis by (intro conjI h a b)
qed

lemma Generate_deterministic_scenario:
  "fst (Generate \<lparr>base_interval = 1, base_probability = 0.5, time_without_loot = 0\<rparr> 1 0 10 0.5) = 3"
proof -
  have pw: "pow_ratio (1 / 2) 1 = 1 / 2"
    by (simp add: pow_ratio_def powr_one)
  have "\<lfloor>11 / 2 - 5 * (1 / 2 :: real)\<rfloor> = 3" by simp
  then show ?thesis by (simp add: Generate_def Let_def pw)
qed

section \<open>Round trip of the snapshot\<close>

lemma to_int64_range: "- (2 ^ 63) \<le> to_int64 n \<and> to_int64 n < 2 ^ 63"
proof -
  have "0 \<le> int n mod 2 ^ 64" "int n mod 2 ^ 64 < 2 ^ 64" by simp_all
  then show ?thesis by (auto simp: to_int64_def Let_def)
qed

lemma as_int64_to_int64 [simp]: "as_int64 (JInt (to_int64 n)) = Some (to_int64 n)"
  using to_int64_range[of n] by simp

lemma to_size_t_to_int64: "fits_size_t n \<Longrightarrow> to_size_t (to_int64 n) = n"
  by (auto simp: fits_size_t_def to_size_t_def to_int64_def Let_def)

lemma as_int64_fits_int: "fits_int i \<Longrightarrow> as_int64 (JInt i) = Some i"
  by (simp add: fits_int_def)

lemma c_str_no_zero_char: "no_zero_char str \<Longrightarrow> c_str str = str"
  by (auto simp: c_str_def no_zero_char_def takeWhile_eq_all_conv)

lemma direction_round_trip: "direction_of_name (c_str (direction_name d)) = d"
  by (cases d) (simp_all add: direction_name_def direction_of_name_def c_str_def)

lemma DeserializeLoot_SerializeLoot:
  assumes "loot_wf l"
  shows "DeserializeLoot (SerializeLoot l) = Some (restored_loot l)"
proof -
  have v: "as_int64 (JInt (loot_value l)) = Some (loot_value l)" "to_int (loot_value l) = loot_value l"
    using assms unfolding loot_wf_def
    by (simp_all add: as_int64_fits_int to_int_fits_int del: as_int64.simps)
  have i: "to_size_t (to_int64 (loot_id l)) = loot_id l"
    "to_size_t (to_int64 (loot_type l)) = loot_type l"
    using assms by (simp_all add: loot_wf_def to_size_t_to_int64)
  show ?thesis
    by (simp add: DeserializeLoot_def SerializeLoot_def contains_def json_at_def v i
          restored_loot_def round_position_def del: as_int64.simps)
qed

lemma DeserializeDog_SerializeDog:
  assumes "dog_wf d"
  shows "DeserializeDog (SerializeDog d) = Some (restored_dog d)"
proof -
  have c: "c_str (dog_id d) = dog_id d" "c_str (dog_name d) = dog_name d"
    "c_str (dog_map_id d) = dog_map_id d"
    using assms by (simp_all add: dog_wf_def c_str_no_zero_char)
  show ?thesis
    by (simp add: DeserializeDog_def SerializeDog_def contains_def json_at_def c
          direction_round_trip Dog_new_def restored_dog_def round_position_def round_speed_def)
qed



lemma restore_bag_loot_SerializeLoot:
  assumes "loot_wf l" and "length (bag q) < bag_capacity q"
  shows "restore_bag_loot (JObject (SerializeLoot l)) q = q\<lparr>bag := bag q @ [restored_loot l]\<rparr>"
  using assms
  by (simp add: restore_bag_loot_def DeserializeLoot_SerializeLoot AddToBag_def)

lemma fold_restore_bag_loot_SerializeLoot:
  assumes "list_all loot_wf ls" and "length (bag q) + length ls \<le> bag_capacity q"
  shows "fold restore_bag_loot (map (\<lambda>loot. JObject (SerializeLoot loot)) ls) q =
           q\<lparr>bag := bag q @ map restored_loot ls\<rparr>"
  using assms
proof (induction ls arbitrary: q)
  case Nil
  show ?case by simp
next
  case (Cons l ls)
  have step: "restore_bag_loot (JObject (SerializeLoot l)) q = q\<lparr>bag := bag q @ [restored_loot l]\<rparr>"
    using Cons.prems by (intro restore_bag_loot_SerializeLoot) simp_all
  have "fold restore_bag_loot (map (\<lambda>loot. JObject (SerializeLoot loot)) ls)
          (q\<lparr>bag := bag q @ [restored_loot l]\<rparr>) =
        (q\<lparr>bag := bag q @ [restored_loot l]\<rparr>)
          \<lparr>bag := bag (q\<lparr>bag := bag q @ [restored_loot l]\<rparr>) @ map restored_loot ls\<rparr>"
    using Cons.prems by (intro Cons.IH) simp_all
  then show ?case by (simp add: step)
qed

lemma DeserializePlayer_SerializePlayer:
  assumes "player_wf p"
  shows "DeserializePlayer (SerializePlayer p) = Some (restored_player p)"
proof -
  have c: "c_str (player_token p) = player_token p"
    using assms by (simp add: player_wf_def c_str_no_zero_char)
  have i: "to_size_t (to_int64 (player_id p)) = player_id p"
    "to_size_t (to_int64 (bag_capacity p)) = bag_capacity p"
    using assms by (simp_all add: player_wf_def to_size_t_to_int64)
  have sc: "as_int64 (JInt (score p)) = Some (score p)" "to_int (score p) = score p"
    using assms unfolding player_wf_def
    by (simp_all add: as_int64_fits_int to_int_fits_int del: as_int64.simps)
  have d: "DeserializeDog (SerializeDog (player_dog p)) = Some (restored_dog (player_dog p))"
    using assms by (simp add: player_wf_def DeserializeDog_SerializeDog)
  let ?q = "AddScore (score p) (Player_new (player_id p) (restored_dog (player_dog p))
              (player_token p) (bag_capacity p))"
  have b: "fold restore_bag_loot (map (\<lambda>loot. JObject (SerializeLoot loot)) (bag p)) ?q =
             ?q\<lparr>bag := bag ?q @ map restored_loot (bag p)\<rparr>"
    using assms
    by (intro fold_restore_bag_loot_SerializeLoot)
       (simp_all add: player_wf_def AddScore_def Player_new_def)
  have r: "?q\<lparr>bag := bag ?q @ map restored_loot (bag p)\<rparr> = restored_player p"
    using sc(2) by (simp add: AddScore_def Player_new_def restored_player_def int_plus_def)
  show ?thesis
    by (simp add: DeserializePlayer_def SerializePlayer_def contains_def json_at_def c i sc d
          SerializeToken_def DeserializeToken_def b r del: as_int64.simps)
qed



lemma fold_restore_player_SerializePlayer:
  assumes "list_all player_wf ps"
  shows "fold restore_player (map (\<lambda>p. JObject (SerializePlayer p)) ps) session =
           session\<lparr>session_players := session_players session @ map restored_player ps\<rparr>"
  using assms
proof (induction ps arbitrary: session)
  case Nil
  show ?case by simp
next
  case (Cons p ps)
  have step: "restore_player (JObject (SerializePlayer p)) session =
      session\<lparr>session_players := session_players session @ [restored_player p]\<rparr>"
    using Cons.prems
    by (simp add: restore_player_def DeserializePlayer_SerializePlayer AddPlayer_def)
  show ?case using Cons.prems by (simp add: step Cons.IH)
qed

lemma fold_restore_loot_SerializeLoot:
  assumes "list_all loot_wf ls"
  shows "fold restore_loot (map (\<lambda>loot. JObject (SerializeLoot loot)) ls) session =
           session\<lparr>session_loots := session_loots session @ map restored_loot ls\<rparr>"
  using assms
proof (induction ls arbitrary: session)
  case Nil
  show ?case by simp
next
  case (Cons l ls)
  have step: "restore_loot (JObject (SerializeLoot l)) session =
      session\<lparr>session_loots := session_loots session @ [restored_loot l]\<rparr>"
    using Cons.prems
    by (simp add: restore_loot_def DeserializeLoot_SerializeLoot AddLoot_def)
  show ?case using Cons.prems by (simp add: step Cons.IH)
qed

lemma find_session_None:
  "find_session mid ss = None \<longleftrightarrow> mid \<notin> set (map (\<lambda>s. map_id (session_map s)) ss)"
  by (induction ss) auto

lemma FindMap_map_id: "FindMap game mid = Some m \<Longrightarrow> map_id m = mid"
  by (auto simp: FindMap_def find_Some_iff)

lemma DeserializeSession_SerializeSession:
  assumes "session_wf s"
    and "find_session (map_id (session_map s)) (game_sessions game) = None"
    and "FindMap game (map_id (session_map s)) = Some m"
  shows "DeserializeSession game (SerializeSession s) =
           (game\<lparr>game_sessions := game_sessions game @ [restored_session game s]\<rparr>, True)"
proof -
  let ?mid = "map_id (session_map s)"
  let ?new = "(case loot_generator_config game of
                 Some g \<Rightarrow> SetLootGenerator g (GameSession_new (?mid @ ''_session'') m)
               | None \<Rightarrow> GameSession_new (?mid @ ''_session'') m)"
  have c: "c_str ?mid = ?mid"
    using assms(1) by (simp add: session_wf_def c_str_no_zero_char)
  have g: "GetOrCreateSession game ?mid =
      Some (game\<lparr>game_sessions := game_sessions game @ [?new]\<rparr>, length (game_sessions game))"
    using assms(2,3) by (simp add: GetOrCreateSession_def FindSessionByMapId_def Let_def)
  have n: "as_int64 (JInt (int (next_loot_id s))) = Some (int (next_loot_id s))"
    "to_size_t (int (next_loot_id s)) = next_loot_id s"
    using assms(1) by (simp_all add: session_wf_def to_size_t_def)
  have s1: "restore_next_loot_id (SerializeSession s) ?new = Some (SetNextLootId (next_loot_id s) ?new)"
    by (simp add: restore_next_loot_id_def SerializeSession_def contains_def json_at_def n
          del: as_int64.simps)
  have s2: "restore_players (SerializeSession s) (SetNextLootId (next_loot_id s) ?new) =
      Some ((SetNextLootId (next_loot_id s) ?new)
              \<lparr>session_players := session_players (SetNextLootId (next_loot_id s) ?new)
                 @ map restored_player (session_players s)\<rparr>)"
    using assms(1)
    by (simp add: restore_players_def SerializeSession_def contains_def json_at_def
          fold_restore_player_SerializePlayer session_wf_def)
  let ?s2 = "(SetNextLootId (next_loot_id s) ?new)
              \<lparr>session_players := session_players (SetNextLootId (next_loot_id s) ?new)
                 @ map restored_player (session_players s)\<rparr>"
  have s3: "restore_loots (SerializeSession s) ?s2 =
      Some (?s2\<lparr>session_loots := session_loots ?s2 @ map restored_loot (session_loots s)\<rparr>)"
    using assms(1)
    by (simp add: restore_loots_def SerializeSession_def contains_def json_at_def
          fold_restore_loot_SerializeLoot session_wf_def)
  have r: "?s2\<lparr>session_loots := session_loots ?s2 @ map restored_loot (session_loots s)\<rparr> =
      restored_session game s"
    using assms(3)
    by (simp add: restored_session_def SetNextLootId_def GameSession_new_def SetLootGenerator_def
          split: option.splits)
  have m: "json_at (SerializeSession s) ''map_id'' \<bind> as_string = Some ?mid"
    "contains (SerializeSession s) ''map_id''"
    by (simp_all add: SerializeSession_def contains_def json_at_def)
  have idx: "game_sessions (game\<lparr>game_sessions := game_sessions game @ [?new]\<rparr>)
               ! length (game_sessions game) = ?new"
    by simp
  have upd: "(game\<lparr>game_sessions := game_sessions game @ [?new]\<rparr>)
               \<lparr>game_sessions := (game_sessions (game\<lparr>game_sessions := game_sessions game @ [?new]\<rparr>))
                  [length (game_sessions game) := x]\<rparr> =
             game\<lparr>game_sessions := game_sessions game @ [x]\<rparr>" for x
    by simp
  have "DeserializeSession game (SerializeSession s) =
          (case restore_next_loot_id (SerializeSession s) ?new of
             None \<Rightarrow> (game\<lparr>game_sessions := game_sessions game @ [?new]\<rparr>, False)
           | Some s1 \<Rightarrow>
               (case restore_players (SerializeSession s) s1 of
                  None \<Rightarrow> (game\<lparr>game_sessions := game_sessions game @ [s1]\<rparr>, False)
                | Some s2 \<Rightarrow>
                    (case restore_loots (SerializeSession s) s2 of
                       None \<Rightarrow> (game\<lparr>game_sessions := game_sessions game @ [s2]\<rparr>, False)
                     | Some s3 \<Rightarrow> (game\<lparr>game_sessions := game_sessions game @ [s3]\<rparr>, True))))"
    unfolding DeserializeSession_def
    by (simp only: m c g idx upd option.case prod.case simp_thms if_False if_True)
  also have "\<dots> = (game\<lparr>game_sessions := game_sessions game @ [restored_session game s]\<rparr>, True)"
    by (simp only: s1 s2 s3 r option.case)
  finally show ?thesis .
qed



lemma restore_session_SerializeSession:
  assumes "session_wf s"
    and "map_id (session_map s) \<notin> set (map (\<lambda>s. map_id (session_map s)) (game_sessions game))"
    and "FindMap game (map_id (session_map s)) \<noteq> None"
  shows "restore_session (JObject (SerializeSession s)) game =
           game\<lparr>game_sessions := game_sessions game @ [restored_session game s]\<rparr>"
proof -
  from assms(3) obtain m where m: "FindMap game (map_id (session_map s)) = Some m" by auto
  have f: "find_session (map_id (session_map s)) (game_sessions game) = None"
    using assms(2) find_session_None[of "map_id (session_map s)" "game_sessions game"] by blast
  show ?thesis
    by (simp add: restore_session_def DeserializeSession_SerializeSession[OF assms(1) f m])
qed

lemma restored_session_more_sessions:
  "restored_session (game\<lparr>game_sessions := ss\<rparr>) s = restored_session game s"
  by (simp add: restored_session_def FindMap_def)

lemma restored_session_map_id:
  "FindMap game (map_id (session_map s)) \<noteq> None \<Longrightarrow>
   map_id (session_map (restored_session game s)) = map_id (session_map s)"
  by (auto simp: restored_session_def dest: FindMap_map_id)

lemma fold_restore_session:
  assumes "list_all session_wf ss"
    and "distinct (map (\<lambda>s. map_id (session_map s)) ss)"
    and "set (map (\<lambda>s. map_id (session_map s)) ss) \<inter>
         set (map (\<lambda>s. map_id (session_map s)) (game_sessions game)) = {}"
    and "\<forall>s \<in> set ss. FindMap game (map_id (session_map s)) \<noteq> None"
  shows "fold restore_session (map (\<lambda>s. JObject (SerializeSession s)) ss) game =
           game\<lparr>game_sessions := game_sessions game @ map (restored_session game) ss\<rparr>"
  using assms
proof (induction ss arbitrary: game)
  case Nil
  show ?case by simp
next
  case (Cons s ss)
  let ?game' = "game\<lparr>game_sessions := game_sessions game @ [restored_session game s]\<rparr>"
  have fm: "FindMap game (map_id (session_map s)) \<noteq> None" using Cons.prems(4) by simp
  have step: "restore_session (JObject (SerializeSession s)) game = ?game'"
    using Cons.prems by (intro restore_session_SerializeSession) auto
  have mid: "map_id (session_map (restored_session game s)) = map_id (session_map s)"
    by (rule restored_session_map_id[OF fm])
  have 1: "list_all session_wf ss" using Cons.prems(1) by simp
  have 2: "distinct (map (\<lambda>s. map_id (session_map s)) ss)" using Cons.prems(2) by simp
  have 3: "set (map (\<lambda>s. map_id (session_map s)) ss) \<inter>
         set (map (\<lambda>s. map_id (session_map s)) (game_sessions ?game')) = {}"
    using Cons.prems(2,3) by (auto simp: mid)
  have 4: "\<forall>s \<in> set ss. FindMap ?game' (map_id (session_map s)) \<noteq> None"
    using Cons.prems(4) by (simp add: FindMap_def)
  have "fold restore_session (map (\<lambda>s. JObject (SerializeSession s)) ss) ?game' =
          ?game'\<lparr>game_sessions := game_sessions ?game' @ map (restored_session ?game') ss\<rparr>"
    by (rule Cons.IH[OF 1 2 3 4])
  then show ?case
    by (simp add: step restored_session_more_sessions)
qed

lemma loot_equal_restored: "loot_equal_mod_rounding l (restored_loot l)"
  by (simp add: loot_equal_mod_rounding_def restored_loot_def)

lemma player_equal_restored: "player_equal_mod_rounding p (restored_player p)"
  by (simp add: player_equal_mod_rounding_def restored_player_def dog_equal_mod_rounding_def
        restored_dog_def list_all2_map2 loot_equal_restored list_all2_same)

lemma session_equal_restored:
  assumes "session_wf s" and "FindMap game (map_id (session_map s)) \<noteq> None"
  shows "session_equal_mod_rounding s (restored_session game s)"
proof -
  have "map_id (session_map (restored_session game s)) = map_id (session_map s)"
    by (rule restored_session_map_id[OF assms(2)])
  moreover have "session_id (restored_session game s) = session_id s"
    using assms(1) by (simp add: restored_session_def session_wf_def)
  ultimately show ?thesis
    by (simp add: session_equal_mod_rounding_def list_all2_map2 list_all2_same
          player_equal_restored loot_equal_restored)
       (simp add: restored_session_def list_all2_map2 list_all2_same
          player_equal_restored loot_equal_restored)
qed

text \<open>
  The round trip of a snapshot, for sessions that \<open>session_wf\<close> admits: serializing the
  sessions of a game (at most one per map) and deserializing the result into a game
  without sessions that has a map for every map id yields, for every session, a session
  equal to the original modulo rounding, in the same order.
\<close>

lemma snapshot_round_trip:
  assumes "list_all session_wf (game_sessions game)"
    and "distinct (map (\<lambda>s. map_id (session_map s)) (game_sessions game))"
    and "\<forall>s \<in> set (game_sessions game). FindMap game0 (map_id (session_map s)) \<noteq> None"
    and "game_sessions game0 = []"
  shows "\<exists>game'. DeserializeGame game0 (SerializeGame game) = Some game' \<and>
           game_sessions game' = map (restored_session game0) (game_sessions game) \<and>
           list_all2 session_equal_mod_rounding (game_sessions game) (game_sessions game')"
proof -
  have f: "fold restore_session (map (\<lambda>s. JObject (SerializeSession s)) (game_sessions game)) game0 =
           game0\<lparr>game_sessions := game_sessions game0 @
              map (restored_session game0) (game_sessions game)\<rparr>"
    using assms by (intro fold_restore_session) simp_all
  have d: "DeserializeGame game0 (SerializeGame game) =
      Some (game0\<lparr>game_sessions := map (restored_session game0) (game_sessions game)\<rparr>)"
    by (simp add: DeserializeGame_def SerializeGame_def contains_def json_at_def f assms(4))
  have "list_all2 session_equal_mod_rounding (game_sessions game)
          (map (restored_session game0) (game_sessions game))"
    using assms(1,3)
    by (auto simp: list_all2_map2 list_all_iff intro!: list_all2_same[THEN iffD2]
          session_equal_restored)
  then show ?thesis using d by simp
qed

section \<open>Names with a zero character\<close>

text \<open>What deserialization returns for the snapshot of any dog.\<close>

lemma DeserializeDog_SerializeDog_any:
  "DeserializeDog (SerializeDog d) =
     Some ((restored_dog d)\<lparr>dog_id := c_str (dog_id d), dog_name := c_str (dog_name d),
                             dog_map_id := c_str (dog_map_id d)\<rparr>)"
  by (simp add: DeserializeDog_def SerializeDog_def contains_def json_at_def
        direction_round_trip Dog_new_def restored_dog_def round_position_def round_speed_def)

lemma DeserializePlayer_SerializePlayer_any:
  assumes "player_wf (p\<lparr>player_dog := d0\<rparr>)"
  shows "DeserializePlayer (SerializePlayer p) =
           Some ((restored_player p)
                   \<lparr>player_dog := (restored_dog (player_dog p))
                      \<lparr>dog_id := c_str (dog_id (player_dog p)),
                       dog_name := c_str (dog_name (player_dog p)),
                       dog_map_id := c_str (dog_map_id (player_dog p))\<rparr>\<rparr>)"
proof -
  let ?d = "(restored_dog (player_dog p))
                      \<lparr>dog_id := c_str (dog_id (player_dog p)),
                       dog_name := c_str (dog_name (player_dog p)),
                       dog_map_id := c_str (dog_map_id (player_dog p))\<rparr>"
  have c: "c_str (player_token p) = player_token p"
    using assms by (simp add: player_wf_def c_str_no_zero_char)
  have i: "to_size_t (to_int64 (player_id p)) = player_id p"
    "to_size_t (to_int64 (bag_capacity p)) = bag_capacity p"
    using assms by (simp_all add: player_wf_def to_size_t_to_int64)
  have sc: "as_int64 (JInt (score p)) = Some (score p)" "to_int (score p) = score p"
    using assms unfolding player_wf_def
    by (simp_all add: as_int64_fits_int to_int_fits_int del: as_int64.simps)
  let ?q = "AddScore (score p) (Player_new (player_id p) ?d (player_token p) (bag_capacity p))"
  have b: "fold restore_bag_loot (map (\<lambda>loot. JObject (SerializeLoot loot)) (bag p)) ?q =
             ?q\<lparr>bag := bag ?q @ map restored_loot (bag p)\<rparr>"
    using assms
    by (intro fold_restore_bag_loot_SerializeLoot)
       (simp_all add: player_wf_def AddScore_def Player_new_def)
  have r: "?q\<lparr>bag := bag ?q @ map restored_loot (bag p)\<rparr> = (restored_player p)\<lparr>player_dog := ?d\<rparr>"
    using sc(2) by (simp add: AddScore_def Player_new_def restored_player_def int_plus_def)
  show ?thesis
    by (simp add: DeserializePlayer_def SerializePlayer_def contains_def json_at_def c i sc
          DeserializeDog_SerializeDog_any SerializeToken_def DeserializeToken_def b r
          del: as_int64.simps)
qed

lemma c_str_ex_name_nul: "c_str ex_name_nul = ''a''" "c_str (ex_name_nul @ ''_map1'') = ''a''"
  by (simp_all add: c_str_def ex_name_nul_def)

lemma ex_player_nul_restored:
  "DeserializePlayer (SerializePlayer ex_player_nul) =
     Some (Player_new 0 (Dog_new ''a'' ''a'' ''map1'') ''00000000000000000000000000000001'' 3)"
proof -
  have wf: "player_wf (ex_player_nul\<lparr>player_dog := Dog_new [] [] []\<rparr>)"
    by (simp add: player_wf_def ex_player_nul_def Player_new_def Dog_new_def dog_wf_def
          no_zero_char_def fits_size_t_def fits_int_def)
  have c: "c_str ''map1'' = ''map1''" by (simp add: c_str_def)
  show ?thesis
    unfolding DeserializePlayer_SerializePlayer_any[OF wf]
    by (simp add: ex_player_nul_def Player_new_def Dog_new_def restored_player_def restored_dog_def
          c_str_ex_name_nul c round_position_def round_speed_def Round6_def std_round_def)
qed

lemma ex_game_empty_facts:
  "game_sessions ex_game_empty = []" "game_maps ex_game_empty = [ex_map]"
  "loot_generator_config ex_game_empty = Some ex_generator" "map_id ex_map = ''map1''"
  by (simp_all add: ex_game_empty_def ex_game_def ex_map_def)

lemma ex_game_nul_restored:
  "DeserializeGame ex_game_empty (SerializeGame ex_game_nul) =
     Some (ex_game_empty\<lparr>game_sessions :=
       [AddPlayer (Player_new 0 (Dog_new ''a'' ''a'' ''map1'') ''00000000000000000000000000000001'' 3)
          (SetLootGenerator ex_generator (GameSession_new ''map1_session'' ex_map))]\<rparr>)"
proof -
  let ?s = "AddPlayer ex_player_nul
              (SetLootGenerator ex_generator (GameSession_new ''map1_session'' ex_map))"
  have ser: "SerializeSession ?s =
     [(''id'', JString ''map1_session''), (''map_id'', JString ''map1''),
      (''next_loot_id'', JInt 0),
      (''players'', JArray [JObject (SerializePlayer ex_player_nul)]),
      (''loots'', JArray [])]"
    by (simp add: SerializeSession_def AddPlayer_def SetLootGenerator_def GameSession_new_def
          ex_game_empty_facts)
  have c: "c_str ''map1'' = ''map1''" by (simp add: c_str_def)
  have g: "GetOrCreateSession ex_game_empty ''map1'' =
      Some (ex_game_empty\<lparr>game_sessions :=
              [SetLootGenerator ex_generator (GameSession_new ''map1_session'' ex_map)]\<rparr>, 0)"
    by (simp add: GetOrCreateSession_def FindSessionByMapId_def FindMap_def ex_game_empty_facts)
  have d: "DeserializeSession ex_game_empty (SerializeSession ?s) =
      (ex_game_empty\<lparr>game_sessions :=
         [AddPlayer (Player_new 0 (Dog_new ''a'' ''a'' ''map1'') ''00000000000000000000000000000001'' 3)
            (SetLootGenerator ex_generator (GameSession_new ''map1_session'' ex_map))]\<rparr>, True)"
    unfolding ser
    by (simp add: DeserializeSession_def contains_def json_at_def c g restore_next_loot_id_def
          restore_players_def restore_loots_def restore_player_def ex_player_nul_restored
          to_size_t_def SetNextLootId_def SetLootGenerator_def GameSession_new_def AddPlayer_def)
  show ?thesis
    by (simp add: DeserializeGame_def SerializeGame_def contains_def json_at_def ex_game_nul_def
          restore_session_def d)
qed

text \<open>
  Claim C9. The claim: serializing the sessions of a game and deserializing the result
  into a game with the same maps yields sessions equal to the originals modulo rounding,
  with the same players, among others the same state of each dog. For sessions without zero
  characters in their strings this is lemma \<open>snapshot_round_trip\<close>. The deserializer
  reads every string through \<^verbatim>\<open>c_str()\<close>, which ends at the first zero character: the
  dog of a player who joined as "a", zero, "b" is written to the snapshot with its name and
  its id "a", zero, "b\_map1", and is restored with the name "a" and the id "a".
\<close>

theorem snapshot_truncates_names_at_zero_char:
  "DeserializeGame ex_game_empty (SerializeGame ex_game_nul) =
     Some (ex_game_empty\<lparr>game_sessions :=
       [AddPlayer (Player_new 0 (Dog_new ''a'' ''a'' ''map1'') ''00000000000000000000000000000001'' 3)
          (SetLootGenerator ex_generator (GameSession_new ''map1_session'' ex_map))]\<rparr>) \<and>
   map (\<lambda>s. map (\<lambda>p. (dog_id (player_dog p), dog_name (player_dog p))) (session_players s))
     (game_sessions ex_game_nul) =
     [[([CHR ''a'', CHR 0x00, CHR ''b'', CHR ''_'', CHR ''m'', CHR ''a'', CHR ''p'', CHR ''1''],
        [CHR ''a'', CHR 0x00, CHR ''b''])]]"
proof -
  have "map (\<lambda>s. map (\<lambda>p. (dog_id (player_dog p), dog_name (player_dog p))) (session_players s))
     (game_sessions ex_game_nul) =
     [[([CHR ''a'', CHR 0x00, CHR ''b'', CHR ''_'', CHR ''m'', CHR ''a'', CHR ''p'', CHR ''1''],
        [CHR ''a'', CHR 0x00, CHR ''b''])]]"
    by (simp add: ex_game_nul_def AddPlayer_def SetLootGenerator_def GameSession_new_def
          ex_player_nul_def Player_new_def Dog_new_def ex_name_nul_def)
  then show ?thesis using ex_game_nul_restored by (intro conjI)
qed

theorem snapshot_truncates_names_at_zero_char_witness:
  "\<exists>game'. DeserializeGame ex_game_empty (SerializeGame ex_game_nul) = Some game' \<and>
      \<not> list_all2 session_equal_mod_rounding (game_sessions ex_game_nul) (game_sessions game')"
proof -
  let ?g' = "ex_game_empty\<lparr>game_sessions :=
       [AddPlayer (Player_new 0 (Dog_new ''a'' ''a'' ''map1'') ''00000000000000000000000000000001'' 3)
          (SetLootGenerator ex_generator (GameSession_new ''map1_session'' ex_map))]\<rparr>"
  have d: "DeserializeGame ex_game_empty (SerializeGame ex_game_nul) = Some ?g'"
    using snapshot_truncates_names_at_zero_char by (rule conjunct1)
  have "\<not> list_all2 session_equal_mod_rounding (game_sessions ex_game_nul) (game_sessions ?g')"
    by (simp add: ex_game_nul_def session_equal_mod_rounding_def player_equal_mod_rounding_def
          dog_equal_mod_rounding_def AddPlayer_def SetLootGenerator_def GameSession_new_def
          ex_player_nul_def Player_new_def Dog_new_def ex_name_nul_def)
  with d show ?thesis by blast
qed

lemma snapshot_round_trip_example:
  "\<exists>game'. DeserializeGame ex_game_empty (SerializeGame ex_game) = Some game' \<and>
      game_sessions game' = map (restored_session ex_game_empty) (game_sessions ex_game) \<and>
      list_all2 session_equal_mod_rounding (game_sessions ex_game) (game_sessions game')"
proof -
  have wf: "session_wf ex_session"
    by (simp add: session_wf_def ex_session_def ex_map_def player_wf_def ex_player0_def
          ex_player1_def dog_wf_def Dog_new_def loot_wf_def no_zero_char_def fits_size_t_def
          fits_int_def)
  have s: "game_sessions ex_game = [ex_session]" by (simp add: ex_game_def)
  have m: "map_id (session_map ex_session) = ''map1''" by (simp add: ex_session_def ex_map_def)
  have f: "FindMap ex_game_empty ''map1'' \<noteq> None"
    by (simp add: FindMap_def ex_game_empty_facts)
  show ?thesis
    by (rule snapshot_round_trip) (simp_all add: s wf m f ex_game_empty_facts)
qed

end
